theory Spec2Isabelle
  imports Main "HOL-Library.AList"
begin

section \<open>JavaScript values\<close>

text \<open>
  The model of \<^verbatim>\<open>src/src/Response.mjs\<close>. JavaScript values are the plain data the
  class handles: \<^verbatim>\<open>undefined\<close>, \<^verbatim>\<open>null\<close>, booleans, numbers, strings, Node
  \<^verbatim>\<open>Buffer\<close>s, \<^verbatim>\<open>Date\<close>s, arrays and plain objects. Numbers are the integers,
  \<^verbatim>\<open>NaN\<close> and the two infinities (what \<^verbatim>\<open>parseInt\<close>, status codes and lengths
  produce): \<open>Num i\<close> is the number with the integer value \<open>i\<close>, which every
  \<open>i\<close> up to \<^verbatim>\<open>Number.MAX_SAFE_INTEGER\<close> in magnitude has; what the runtime computes and
  prints beyond that range is a parameter of the model. Functions, symbols
  and bigints are not part of the value universe. A string is a list of 8-bit characters,
  one per code unit; an object is the list of its own enumerable properties in
  enumeration order (keys distinct); a \<^verbatim>\<open>Date\<close> is its time value in milliseconds.
\<close>

datatype number = Num int | NaN | PosInfinity | NegInfinity

datatype jsval =
    JUndefined
  | JNull
  | JBool bool
  | JNumber number
  | JStr string
  | JBuffer string
  | JDate int
  | JArr "jsval list"
  | JObj "(string \<times> jsval) list"

text \<open>The \<^verbatim>\<open>typeof\<close> operator: \<^verbatim>\<open>null\<close>, buffers, dates, arrays and objects are all
  \<^verbatim>\<open>'object'\<close>.\<close>

fun typeof :: "jsval \<Rightarrow> string" where
  "typeof JUndefined = ''undefined''"
| "typeof JNull = ''object''"
| "typeof (JBool b) = ''boolean''"
| "typeof (JNumber n) = ''number''"
| "typeof (JStr s) = ''string''"
| "typeof (JBuffer b) = ''object''"
| "typeof (JDate t) = ''object''"
| "typeof (JArr xs) = ''object''"
| "typeof (JObj kvs) = ''object''"

fun isBuffer :: "jsval \<Rightarrow> bool" where
  "isBuffer (JBuffer b) = True"
| "isBuffer v = False"

text \<open>Truthiness (\<^verbatim>\<open>ToBoolean\<close>): \<^verbatim>\<open>undefined\<close>, \<^verbatim>\<open>null\<close>, \<^verbatim>\<open>false\<close>, \<^verbatim>\<open>0\<close>,
  \<^verbatim>\<open>NaN\<close> and the empty string are falsy; every object is truthy.\<close>

fun truthy :: "jsval \<Rightarrow> bool" where
  "truthy JUndefined = False"
| "truthy JNull = False"
| "truthy (JBool b) = b"
| "truthy (JNumber (Num i)) = (i \<noteq> 0)"
| "truthy (JNumber NaN) = False"
| "truthy (JNumber PosInfinity) = True"
| "truthy (JNumber NegInfinity) = True"
| "truthy (JStr s) = (s \<noteq> [])"
| "truthy (JBuffer b) = True"
| "truthy (JDate t) = True"
| "truthy (JArr xs) = True"
| "truthy (JObj kvs) = True"

subsection \<open>Strings\<close>

definition digit_char :: "nat \<Rightarrow> char" where
  "digit_char d = ''0123456789abcdef'' ! d"

fun show_nat :: "nat \<Rightarrow> string" where
  "show_nat n = (if n < 10 then [digit_char n] else show_nat (n div 10) @ [digit_char (n mod 10)])"

declare show_nat.simps [simp del]

text \<open>An integer in decimal digits.\<close>

definition show_decimal :: "int \<Rightarrow> string" where
  "show_decimal i = (if i < 0 then CHR ''-'' # show_nat (nat (- i)) else show_nat (nat i))"

text \<open>The integers that the number format holds exactly and prints digit by digit: those
  up to \<^verbatim>\<open>Number.MAX_SAFE_INTEGER\<close>, \<open>2\<^sup>5\<^sup>3 - 1\<close>, in magnitude.\<close>

definition is_safe :: "int \<Rightarrow> bool" where
  "is_safe i = (- 9007199254740991 \<le> i \<and> i \<le> 9007199254740991)"

text \<open>\<^verbatim>\<open>Array.prototype.join\<close> on strings.\<close>

fun join :: "string \<Rightarrow> string list \<Rightarrow> string" where
  "join sep [] = []"
| "join sep [x] = x"
| "join sep (x # y # ys) = x @ sep @ join sep (y # ys)"

text \<open>\<^verbatim>\<open>toLowerCase\<close> on the ASCII letters; no character outside \<^verbatim>\<open>A-Z\<close> lower-cases
  to an ASCII letter of \<^verbatim>\<open>content-type\<close> or of a charset name.\<close>

definition lower_char :: "char \<Rightarrow> char" where
  "lower_char c =
     (case map_of (zip ''ABCDEFGHIJKLMNOPQRSTUVWXYZ'' ''abcdefghijklmnopqrstuvwxyz'') c of
        Some d \<Rightarrow> d | None \<Rightarrow> c)"

definition toLowerCase :: "string \<Rightarrow> string" where
  "toLowerCase s = map lower_char s"

text \<open>The white space of \<^verbatim>\<open>\s\<close> and of \<^verbatim>\<open>trim\<close> among the 8-bit code units: tab, line
  feed, vertical tab, form feed, carriage return, space and no-break space.\<close>

definition is_space :: "char \<Rightarrow> bool" where
  "is_space c = (c \<in> set [CHR 0x09, CHR 0x0A, CHR 0x0B, CHR 0x0C, CHR 0x0D, CHR 0x20, CHR 0xA0])"

definition trim :: "string \<Rightarrow> string" where
  "trim s = rev (dropWhile is_space (rev (dropWhile is_space s)))"

text \<open>\<^verbatim>\<open>value.split(';').shift()\<close>: the text before the first semicolon.\<close>

definition split_shift :: "string \<Rightarrow> string" where
  "split_shift s = takeWhile (\<lambda>c. c \<noteq> CHR '';'') s"

text \<open>The getter \<^verbatim>\<open>#charsetRegExp\<close>, \<^verbatim>\<open>/;\s*charset\s*=/\<close>, and its \<^verbatim>\<open>test\<close>: somewhere a
  semicolon, white space, the word \<^verbatim>\<open>charset\<close>, white space and an equals sign. Neither
  \<^verbatim>\<open>c\<close> nor \<^verbatim>\<open>=\<close> is white space, so each \<^verbatim>\<open>\s*\<close> takes the whole run.\<close>

definition charset_tail :: "string \<Rightarrow> bool" where
  "charset_tail cs =
     (let a = dropWhile is_space cs in
      take 7 a = ''charset'' \<and>
      (case dropWhile is_space (drop 7 a) of [] \<Rightarrow> False | e # _ \<Rightarrow> e = CHR ''=''))"

fun charsetRegExp_test :: "string \<Rightarrow> bool" where
  "charsetRegExp_test [] = False"
| "charsetRegExp_test (c # cs) = ((c = CHR '';'' \<and> charset_tail cs) \<or> charsetRegExp_test cs)"

section \<open>The platform\<close>

text \<open>
  What the class takes from its imports and from the runtime, as parameters:
  \<^verbatim>\<open>statuses.message\<close>, \<^verbatim>\<open>mime.charsets.lookup\<close> and \<^verbatim>\<open>mime.lookup\<close> of the package
  \<^verbatim>\<open>send\<close>, the clock behind \<^verbatim>\<open>new Date()\<close>, the three renderings of a \<^verbatim>\<open>Date\<close>,
  the decoding of a \<^verbatim>\<open>Buffer\<close> by \<^verbatim>\<open>toString\<close>, \<^verbatim>\<open>Buffer.byteLength\<close> and \<^verbatim>\<open>Buffer.from\<close>
  on a string with the charset field as encoding (the result \<open>None\<close> when the
  encoding is unknown and the call throws),
  whether iterators have \<^verbatim>\<open>reduce\<close>, the Set-Cookie line of a cookie, and, for an integer
  beyond the safe range, the number that the runtime's arithmetic gives for it and the
  text that \<^verbatim>\<open>String\<close> prints for it (rounded digits, an exponent from \<^verbatim>\<open>1e21\<close>).
\<close>

record cookie =
  cookie_name :: string
  cookie_value :: string
  cookie_secure :: bool

record platform =
  STATUS_TEXTS :: "int \<Rightarrow> string option"
  charsets_lookup :: "string \<Rightarrow> string option"
  mime_lookup :: "string \<Rightarrow> jsval"
  now :: int
  date_toString :: "int \<Rightarrow> string"
  date_toISOString :: "int \<Rightarrow> string"
  date_toUTCString :: "int \<Rightarrow> string"
  buffer_toString :: "string \<Rightarrow> string"
  byteLength :: "string \<Rightarrow> string option \<Rightarrow> nat"
  Buffer_from :: "string \<Rightarrow> string option \<Rightarrow> string option"
  iterator_reduce :: bool
  cookie_line :: "cookie \<Rightarrow> string"
  large_number :: "int \<Rightarrow> number"
  large_toString :: "int \<Rightarrow> string"

text \<open>The number of an integer result, and \<^verbatim>\<open>String\<close> of a number.\<close>

definition number_of :: "platform \<Rightarrow> int \<Rightarrow> number" where
  "number_of P i = (if is_safe i then Num i else large_number P i)"

definition show_int :: "platform \<Rightarrow> int \<Rightarrow> string" where
  "show_int P i = (if is_safe i then show_decimal i else large_toString P i)"

definition show_number :: "platform \<Rightarrow> number \<Rightarrow> string" where
  "show_number P n =
     (case n of
        Num i \<Rightarrow> show_int P i
      | NaN \<Rightarrow> ''NaN''
      | PosInfinity \<Rightarrow> ''Infinity''
      | NegInfinity \<Rightarrow> ''-Infinity'')"

text \<open>\<^verbatim>\<open>String(value)\<close>, and a template literal's conversion of a value, throw a
  \<^verbatim>\<open>TypeError\<close> for a plain object with an own property \<^verbatim>\<open>toString\<close> (which is not a
  function, so the object has no way to become a string), and for an array with such an
  element that is neither \<^verbatim>\<open>null\<close> nor \<^verbatim>\<open>undefined\<close>. Every other value converts.\<close>

fun stringable :: "jsval \<Rightarrow> bool"
  and stringable_elems :: "jsval list \<Rightarrow> bool" where
  "stringable JUndefined = True"
| "stringable JNull = True"
| "stringable (JBool b) = True"
| "stringable (JNumber n) = True"
| "stringable (JStr s) = True"
| "stringable (JBuffer b) = True"
| "stringable (JDate t) = True"
| "stringable (JArr xs) = stringable_elems xs"
| "stringable (JObj kvs) = (''toString'' \<notin> set (map fst kvs))"
| "stringable_elems [] = True"
| "stringable_elems (x # xs) =
     ((x = JUndefined \<or> x = JNull \<or> stringable x) \<and> stringable_elems xs)"

text \<open>The string of a value that converts. An array joins its elements with commas,
  \<^verbatim>\<open>null\<close> and \<^verbatim>\<open>undefined\<close> elements as empty strings; a plain object is
  \<^verbatim>\<open>[object Object]\<close>.\<close>

fun to_String :: "platform \<Rightarrow> jsval \<Rightarrow> string"
  and elem_Strings :: "platform \<Rightarrow> jsval list \<Rightarrow> string list" where
  "to_String P JUndefined = ''undefined''"
| "to_String P JNull = ''null''"
| "to_String P (JBool b) = (if b then ''true'' else ''false'')"
| "to_String P (JNumber n) = show_number P n"
| "to_String P (JStr s) = s"
| "to_String P (JBuffer b) = buffer_toString P b"
| "to_String P (JDate t) = date_toString P t"
| "to_String P (JArr xs) = join '','' (elem_Strings P xs)"
| "to_String P (JObj kvs) = ''[object Object]''"
| "elem_Strings P [] = []"
| "elem_Strings P (x # xs) =
     (if x = JUndefined \<or> x = JNull then [] else to_String P x) # elem_Strings P xs"

section \<open>Errors, collaborators and the state of a Response\<close>

text \<open>The exceptions the class throws, and the \<^verbatim>\<open>TypeError\<close> of the runtime (a method
  called on \<^verbatim>\<open>undefined\<close>, \<^verbatim>\<open>reduce\<close> of an empty array with no initial value).
  \<open>InvalidArgumentCause e\<close> is \<^verbatim>\<open>new InvalidArgumentException(e)\<close> for a caught error.\<close>

datatype error =
    TypeError
  | LogicException string
  | InvalidArgumentException string
  | InvalidArgumentCause error

text \<open>The field \<^verbatim>\<open>_content\<close> holds what \<^verbatim>\<open>setContent\<close> and \<^verbatim>\<open>prepare\<close> store: a string,
  a \<^verbatim>\<open>Buffer\<close> or \<^verbatim>\<open>undefined\<close>.\<close>

datatype content = CStr string | CBuffer string | CUndefined

text \<open>The application container behind \<^verbatim>\<open>this.app.get(key, fallback)\<close>: the three JSON
  options and the entry \<^verbatim>\<open>http.etag.function\<close>, which is unset, a function of the
  content and the charset, or some other value.\<close>

datatype etag_cfg =
    EtagUnset
  | EtagFunction "content \<Rightarrow> string option \<Rightarrow> jsval"
  | EtagOther jsval

record app =
  json_replacer :: jsval
  json_spaces :: jsval
  json_escape :: jsval
  etag_function :: etag_cfg

text \<open>The request, as far as \<^verbatim>\<open>prepare\<close> asks it: \<^verbatim>\<open>isFresh(response)\<close> (reading the
  response's headers and status), \<^verbatim>\<open>isMethod(name)\<close>, \<^verbatim>\<open>server.get(key)\<close> and
  \<^verbatim>\<open>isSecure()\<close>.\<close>

record request =
  req_isFresh :: "(string \<times> string) list option \<Rightarrow> int option \<Rightarrow> bool"
  req_isMethod :: "string \<Rightarrow> bool"
  req_server_get :: "string \<Rightarrow> jsval"
  req_isSecure :: bool

text \<open>The fields of the class. \<open>None\<close> is \<^verbatim>\<open>undefined\<close>, the value of every field
  before it is assigned. \<^verbatim>\<open>_headers\<close> is a \<^verbatim>\<open>Headers\<close> object: header names are
  lower-cased, each name has one string value, and the entries keep insertion order.
  \<^verbatim>\<open>#headerCacheControl\<close> is a \<^verbatim>\<open>Map\<close> from directive name to value, in insertion order.\<close>

record response =
  headers :: "(string \<times> string) list option"
  content :: content
  version :: "string option"
  charset :: "string option"
  exception :: jsval
  statusCode :: "int option"
  appResolver :: "app option"
  statusMessage :: "string option"
  requestResolver :: "request option"
  originalContent :: jsval
  cookieCollection :: "cookie list option"
  headerCacheControl :: "(string \<times> jsval) list option"

text \<open>The object as the constructor finds it: every field \<^verbatim>\<open>undefined\<close>.\<close>

definition blank :: response where
  "blank = \<lparr> headers = None, content = CUndefined, version = None, charset = None,
     exception = JUndefined, statusCode = None, appResolver = None, statusMessage = None,
     requestResolver = None, originalContent = JUndefined, cookieCollection = None,
     headerCacheControl = None \<rparr>"

text \<open>A method that returns \<^verbatim>\<open>this\<close> either throws, leaving the object as it is at the
  throw, or returns the updated object.\<close>

type_synonym outcome = "(error \<times> response) + response"

definition chain :: "outcome \<Rightarrow> (response \<Rightarrow> outcome) \<Rightarrow> outcome" where
  "chain m f = (case m of Inl e \<Rightarrow> Inl e | Inr r \<Rightarrow> f r)"

subsection \<open>The header bag\<close>

datatype hvalue = HString string | HArray "string list"

text \<open>\<^verbatim>\<open>Headers\<close> converts its value to a string; an array becomes its comma-joined
  elements.\<close>

definition hvalue_text :: "hvalue \<Rightarrow> string" where
  "hvalue_text v = (case v of HString s \<Rightarrow> s | HArray xs \<Rightarrow> join '','' xs)"

text \<open>A header name is a token: one or more letters, digits or characters of
  \<^verbatim>\<open>!#$%&'*+-.^_`|~\<close>.\<close>

definition token_char :: "char \<Rightarrow> bool" where
  "token_char c =
     (c \<in> set (''ABCDEFGHIJKLMNOPQRSTUVWXYZabcdefghijklmnopqrstuvwxyz0123456789'' @
               [CHR 0x21, CHR 0x23, CHR 0x24, CHR 0x25, CHR 0x26, CHR 0x27, CHR 0x2A, CHR 0x2B,
                CHR 0x2D, CHR 0x2E, CHR 0x5E, CHR 0x5F, CHR 0x60, CHR 0x7C, CHR 0x7E]))"

definition is_header_name :: "string \<Rightarrow> bool" where
  "is_header_name name = (name \<noteq> [] \<and> list_all token_char name)"

text \<open>A value is normalized by stripping the HTTP white space (tab, line feed, carriage
  return, space) at both ends.\<close>

definition http_whitespace :: "char \<Rightarrow> bool" where
  "http_whitespace c = (c \<in> set [CHR 0x09, CHR 0x0A, CHR 0x0D, CHR 0x20])"

definition normalize_value :: "string \<Rightarrow> string" where
  "normalize_value v = rev (dropWhile http_whitespace (rev (dropWhile http_whitespace v)))"

text \<open>A header value has no tab or space at either end and no NUL, line feed or carriage
  return anywhere.\<close>

definition is_header_value :: "string \<Rightarrow> bool" where
  "is_header_value v =
     ((v = [] \<or> (hd v \<notin> set [CHR 0x09, CHR 0x20] \<and> last v \<notin> set [CHR 0x09, CHR 0x20])) \<and>
      CHR 0x00 \<notin> set v \<and> CHR 0x0A \<notin> set v \<and> CHR 0x0D \<notin> set v)"

text \<open>\<^verbatim>\<open>Headers.set(name, value)\<close>: the value is normalized; a name that is not a header
  name or a normalized value that is not a header value throws a \<^verbatim>\<open>TypeError\<close> (the
  result \<open>None\<close>); otherwise the value replaces the one stored under the lower-cased
  name, or is added at the end.\<close>

definition Headers_set ::
  "(string \<times> string) list \<Rightarrow> string \<Rightarrow> hvalue \<Rightarrow> (string \<times> string) list option" where
  "Headers_set h key v =
     (let value = normalize_value (hvalue_text v) in
      if is_header_name key \<and> is_header_value value
      then Some (AList.update (toLowerCase key) value h)
      else None)"

text \<open>\<^verbatim>\<open>get\<close>, \<^verbatim>\<open>has\<close> and \<^verbatim>\<open>delete\<close> for a name that is a header name. (They throw a
  \<^verbatim>\<open>TypeError\<close> for any other name: \<open>getHeader\<close>, \<open>hasHeader\<close> and \<open>removeHeader\<close>
  below check the caller's name first; the names the class itself passes are header
  names.)\<close>

definition Headers_get :: "(string \<times> string) list \<Rightarrow> string \<Rightarrow> string option" where
  "Headers_get h key = map_of h (toLowerCase key)"

definition Headers_has :: "(string \<times> string) list \<Rightarrow> string \<Rightarrow> bool" where
  "Headers_has h key = (map_of h (toLowerCase key) \<noteq> None)"

definition Headers_delete :: "(string \<times> string) list \<Rightarrow> string \<Rightarrow> (string \<times> string) list" where
  "Headers_delete h key = AList.delete (toLowerCase key) h"

text \<open>\<^verbatim>\<open>this._headers.set(key, value)\<close> on the field.\<close>

definition headers_set :: "response \<Rightarrow> string \<Rightarrow> hvalue \<Rightarrow> outcome" where
  "headers_set r key v =
     (case headers r of
        None \<Rightarrow> Inl (TypeError, r)
      | Some h \<Rightarrow>
          (case Headers_set h key v of
             None \<Rightarrow> Inl (TypeError, r)
           | Some h1 \<Rightarrow> Inr (r\<lparr>headers := Some h1\<rparr>)))"

section \<open>Headers and status\<close>

definition setHeader :: "platform \<Rightarrow> response \<Rightarrow> string \<Rightarrow> jsval \<Rightarrow> outcome" where
  "setHeader P r key value0 =
     (if \<not> (case value0 of JArr xs \<Rightarrow> list_all stringable xs | _ \<Rightarrow> stringable value0)
      then Inl (TypeError, r)
      else
      let v = (case value0 of JArr xs \<Rightarrow> HArray (map (to_String P) xs)
                            | _ \<Rightarrow> HString (to_String P value0)) in
      if toLowerCase key = ''content-type'' then
        (case v of
           HArray xs \<Rightarrow> Inl (InvalidArgumentException ''Content-Type cannot be set to an Array'', r)
         | HString s \<Rightarrow>
             if \<not> charsetRegExp_test s then
               (let cs = charsets_lookup P (trim (split_shift s));
                    r1 = r\<lparr>charset := cs\<rparr>;
                    s1 = s @ (case cs of
                                Some c \<Rightarrow> (if c \<noteq> [] then ''; charset='' @ toLowerCase c else [])
                              | None \<Rightarrow> [])
                in headers_set r1 key (HString s1))
             else headers_set r key (HString s))
      else headers_set r key v)"

text \<open>The class declares \<^verbatim>\<open>setHeaders\<close> twice; the second declaration (line 197) is the
  method. Its argument is a plain object, whose \<^verbatim>\<open>Object.entries\<close> is an array, or a
  \<^verbatim>\<open>Map\<close> or \<^verbatim>\<open>Headers\<close>, whose \<^verbatim>\<open>entries()\<close> is an iterator.\<close>

datatype headers_arg =
    PlainObject "(string \<times> jsval) list"
  | MapLike "(string \<times> jsval) list"

text \<open>What the method returns: \<^verbatim>\<open>this\<close>, or an entry of its argument.\<close>

datatype returned = This | Entry "string \<times> jsval"

text \<open>\<^verbatim>\<open>reduce\<close> is called with no initial value: it throws on an empty sequence, returns
  the first entry without calling the callback when there is one entry, and otherwise
  starts from the first entry and calls the callback on the second entry onwards.\<close>

fun reduce_setHeader :: "platform \<Rightarrow> response \<Rightarrow> (string \<times> jsval) list \<Rightarrow> outcome" where
  "reduce_setHeader P r [] = Inr r"
| "reduce_setHeader P r (e # es) =
     (case setHeader P r (fst e) (snd e) of
        Inl x \<Rightarrow> Inl x
      | Inr r1 \<Rightarrow> reduce_setHeader P r1 es)"

definition reduce_entries ::
  "platform \<Rightarrow> response \<Rightarrow> (string \<times> jsval) list \<Rightarrow> (error \<times> response) + (returned \<times> response)" where
  "reduce_entries P r es =
     (case es of
        [] \<Rightarrow> Inl (TypeError, r)
      | [e] \<Rightarrow> Inr (Entry e, r)
      | e # rest \<Rightarrow>
          (case reduce_setHeader P r rest of
             Inl x \<Rightarrow> Inl x
           | Inr r1 \<Rightarrow> Inr (This, r1)))"

definition setHeaders ::
  "platform \<Rightarrow> response \<Rightarrow> headers_arg \<Rightarrow> (error \<times> response) + (returned \<times> response)" where
  "setHeaders P r values =
     (case values of
        PlainObject es \<Rightarrow> reduce_entries P r es
      | MapLike es \<Rightarrow> if iterator_reduce P then reduce_entries P r es else Inl (TypeError, r))"

definition getHeader :: "response \<Rightarrow> string \<Rightarrow> error + string option" where
  "getHeader r key =
     (case headers r of
        None \<Rightarrow> Inl TypeError
      | Some h \<Rightarrow> if is_header_name key then Inr (Headers_get h key) else Inl TypeError)"

definition hasHeader :: "response \<Rightarrow> string \<Rightarrow> error + bool" where
  "hasHeader r key =
     (case headers r of
        None \<Rightarrow> Inl TypeError
      | Some h \<Rightarrow> if is_header_name key then Inr (Headers_has h key) else Inl TypeError)"

text \<open>\<^verbatim>\<open>removeHeader\<close> takes one name or an array of names.\<close>

fun removeHeader :: "response \<Rightarrow> string list \<Rightarrow> outcome" where
  "removeHeader r [] = Inr r"
| "removeHeader r (k # ks) =
     (case headers r of
        None \<Rightarrow> Inl (TypeError, r)
      | Some h \<Rightarrow>
          if is_header_name k then removeHeader (r\<lparr>headers := Some (Headers_delete h k)\<rparr>) ks
          else Inl (TypeError, r))"

definition isInvalid :: "response \<Rightarrow> bool" where
  "isInvalid r = (case statusCode r of None \<Rightarrow> False | Some c \<Rightarrow> c < 100 \<or> c \<ge> 600)"

definition isInformational :: "response \<Rightarrow> bool" where
  "isInformational r = (case statusCode r of None \<Rightarrow> False | Some c \<Rightarrow> c \<ge> 100 \<and> c < 200)"

definition isEmpty :: "response \<Rightarrow> bool" where
  "isEmpty r = (case statusCode r of None \<Rightarrow> False | Some c \<Rightarrow> c \<in> set [204, 304])"

definition isResetContent :: "response \<Rightarrow> bool" where
  "isResetContent r = (case statusCode r of None \<Rightarrow> False | Some c \<Rightarrow> c \<in> set [205])"

text \<open>\<^verbatim>\<open>setStatus(code, text = null)\<close>: the code is stored first, then checked.\<close>

definition setStatus :: "platform \<Rightarrow> response \<Rightarrow> int \<Rightarrow> string option \<Rightarrow> outcome" where
  "setStatus P r code text =
     (let r1 = r\<lparr>statusCode := Some code\<rparr> in
      if isInvalid r1 then
        Inl (InvalidArgumentException
               (''The HTTP status code '' @ [CHR 0x22] @ show_int P code @ [CHR 0x22] @ '' is not valid.''), r1)
      else
        (case text of
           None \<Rightarrow> Inr (r1\<lparr>statusMessage :=
                      Some (case STATUS_TEXTS P code of Some t \<Rightarrow> t | None \<Rightarrow> ''unknown status'')\<rparr>)
         | Some t \<Rightarrow> Inr (r1\<lparr>statusMessage := Some t\<rparr>)))"

section \<open>Content\<close>

subsection \<open>\<^verbatim>\<open>JSON.stringify\<close>\<close>

text \<open>\<^verbatim>\<open>QuoteJSONString\<close>: the quote, the backslash and the control characters are
  escaped.\<close>

definition quote_char :: "char \<Rightarrow> string" where
  "quote_char c =
     (if c = CHR 0x22 then [CHR 0x5C, CHR 0x22]
      else if c = CHR 0x5C then [CHR 0x5C, CHR 0x5C]
      else if c = CHR 0x08 then [CHR 0x5C, CHR ''b'']
      else if c = CHR 0x0C then [CHR 0x5C, CHR ''f'']
      else if c = CHR 0x0A then [CHR 0x5C, CHR ''n'']
      else if c = CHR 0x0D then [CHR 0x5C, CHR ''r'']
      else if c = CHR 0x09 then [CHR 0x5C, CHR ''t'']
      else if (of_char c :: nat) < 32 then
        CHR 0x5C # ''u00'' @ [digit_char (of_char c div 16), digit_char (of_char c mod 16)]
      else [c])"

definition QuoteJSONString :: "string \<Rightarrow> string" where
  "QuoteJSONString s = CHR 0x22 # concat (map quote_char s) @ [CHR 0x22]"

text \<open>The third argument: a number gives that many spaces, at most ten; a string gives
  its first ten characters; anything else no indentation.\<close>

definition gap_of :: "jsval \<Rightarrow> string" where
  "gap_of space =
     (case space of
        JNumber (Num n) \<Rightarrow> replicate (nat (min 10 n)) CHR '' ''
      | JNumber PosInfinity \<Rightarrow> replicate 10 CHR '' ''
      | JStr s \<Rightarrow> take 10 s
      | _ \<Rightarrow> [])"

text \<open>The second argument: an array is a list of property names (its strings and
  numbers, each once, in order of first occurrence); anything else is ignored.\<close>

fun property_items :: "platform \<Rightarrow> jsval list \<Rightarrow> string list" where
  "property_items P [] = []"
| "property_items P (JStr s # xs) = s # property_items P xs"
| "property_items P (JNumber n # xs) = show_number P n # property_items P xs"
| "property_items P (x # xs) = property_items P xs"

definition property_list :: "platform \<Rightarrow> jsval \<Rightarrow> string list option" where
  "property_list P replacer =
     (case replacer of JArr xs \<Rightarrow> Some (rev (remdups (rev (property_items P xs)))) | _ \<Rightarrow> None)"

text \<open>The text of an array or object from the texts of its parts: \<open>stepback\<close> is the
  indentation outside, \<open>stepback @ gap\<close> the indentation of the parts.\<close>

definition layout :: "char \<Rightarrow> char \<Rightarrow> string \<Rightarrow> string \<Rightarrow> string list \<Rightarrow> string" where
  "layout opn cls gap stepback parts =
     (if parts = [] then [opn, cls]
      else if gap = [] then opn # join '','' parts @ [cls]
      else opn # CHR 0x0A # (stepback @ gap) @
           join (CHR '','' # CHR 0x0A # (stepback @ gap)) parts @ CHR 0x0A # stepback @ [cls])"

text \<open>The members of an object: the keys of the property list, or else the object's own
  keys, each with the text of its value; a key with no value or an \<^verbatim>\<open>undefined\<close> one
  is left out.\<close>

definition members :: "string list option \<Rightarrow> string \<Rightarrow> (string \<times> string option) list \<Rightarrow> string list" where
  "members pl gap props =
     concat (map (\<lambda>k. case map_of props k of
                         Some (Some t) \<Rightarrow>
                           [QuoteJSONString k @ '':'' @ (if gap \<noteq> [] then '' '' else []) @ t]
                       | _ \<Rightarrow> [])
                 (case pl of None \<Rightarrow> map fst props | Some ks \<Rightarrow> ks))"

text \<open>\<^verbatim>\<open>SerializeJSONProperty\<close>: \<open>None\<close> is \<^verbatim>\<open>undefined\<close>. A \<^verbatim>\<open>Date\<close> is serialized as
  its \<^verbatim>\<open>toISOString\<close>, a \<^verbatim>\<open>Buffer\<close> as the object \<^verbatim>\<open>{type: 'Buffer', data: [...]}\<close> of its
  \<^verbatim>\<open>toJSON\<close>; \<^verbatim>\<open>NaN\<close> and the infinities are \<^verbatim>\<open>null\<close>; an \<^verbatim>\<open>undefined\<close> array element is \<^verbatim>\<open>null\<close>.\<close>

fun SerializeJSONProperty ::
    "platform \<Rightarrow> string list option \<Rightarrow> string \<Rightarrow> string \<Rightarrow> jsval \<Rightarrow> string option"
  and SerializeJSONElements ::
    "platform \<Rightarrow> string list option \<Rightarrow> string \<Rightarrow> string \<Rightarrow> jsval list \<Rightarrow> string list"
  and SerializeJSONProperties ::
    "platform \<Rightarrow> string list option \<Rightarrow> string \<Rightarrow> string \<Rightarrow> (string \<times> jsval) list
       \<Rightarrow> (string \<times> string option) list" where
  "SerializeJSONProperty P pl gap ind JUndefined = None"
| "SerializeJSONProperty P pl gap ind JNull = Some ''null''"
| "SerializeJSONProperty P pl gap ind (JBool b) = Some (if b then ''true'' else ''false'')"
| "SerializeJSONProperty P pl gap ind (JNumber n) =
     Some (case n of Num i \<Rightarrow> show_int P i | _ \<Rightarrow> ''null'')"
| "SerializeJSONProperty P pl gap ind (JStr s) = Some (QuoteJSONString s)"
| "SerializeJSONProperty P pl gap ind (JDate t) = Some (QuoteJSONString (date_toISOString P t))"
| "SerializeJSONProperty P pl gap ind (JBuffer b) =
     Some (layout CHR ''{'' CHR ''}'' gap ind
             (members pl gap
                [(''type'', Some (QuoteJSONString ''Buffer'')),
                 (''data'', Some (layout CHR ''['' CHR '']'' gap (ind @ gap)
                                    (map (\<lambda>c. show_nat (of_char c)) b)))]))"
| "SerializeJSONProperty P pl gap ind (JArr xs) =
     Some (layout CHR ''['' CHR '']'' gap ind (SerializeJSONElements P pl gap (ind @ gap) xs))"
| "SerializeJSONProperty P pl gap ind (JObj kvs) =
     Some (layout CHR ''{'' CHR ''}'' gap ind
             (members pl gap (SerializeJSONProperties P pl gap (ind @ gap) kvs)))"
| "SerializeJSONElements P pl gap ind [] = []"
| "SerializeJSONElements P pl gap ind (x # xs) =
     (case SerializeJSONProperty P pl gap ind x of None \<Rightarrow> ''null'' | Some t \<Rightarrow> t)
       # SerializeJSONElements P pl gap ind xs"
| "SerializeJSONProperties P pl gap ind [] = []"
| "SerializeJSONProperties P pl gap ind (kv # kvs) =
     (fst kv, SerializeJSONProperty P pl gap ind (snd kv))
       # SerializeJSONProperties P pl gap ind kvs"

definition JSON_stringify :: "platform \<Rightarrow> jsval \<Rightarrow> jsval \<Rightarrow> jsval \<Rightarrow> string option" where
  "JSON_stringify P value replacer space =
     SerializeJSONProperty P (property_list P replacer) (gap_of space) [] value"

subsection \<open>\<^verbatim>\<open>stringify\<close> and \<^verbatim>\<open>setContent\<close>\<close>

definition escape_char :: "char \<Rightarrow> string" where
  "escape_char c =
     (if c = CHR 0x3C then CHR 0x5C # ''u003c''
      else if c = CHR 0x3E then CHR 0x5C # ''u003e''
      else if c = CHR 0x26 then CHR 0x5C # ''u0026''
      else [c])"

definition stringify :: "platform \<Rightarrow> jsval \<Rightarrow> jsval \<Rightarrow> jsval \<Rightarrow> jsval \<Rightarrow> string option" where
  "stringify P value replacer spaces escape =
     (let json = (if truthy replacer \<or> truthy spaces
                  then JSON_stringify P value replacer spaces
                  else JSON_stringify P value JUndefined JUndefined) in
      if truthy escape then map_option (\<lambda>j. concat (map escape_char j)) json else json)"

text \<open>The getter \<^verbatim>\<open>app\<close>.\<close>

definition get_app :: "response \<Rightarrow> error + app" where
  "get_app r =
     (case appResolver r of
        None \<Rightarrow> Inl (LogicException ''Must set an Application resolver.'')
      | Some a \<Rightarrow> Inr a)"

definition shouldBeJson :: "jsval \<Rightarrow> bool" where
  "shouldBeJson c = (\<not> isBuffer c \<and> typeof c \<in> set [''object'', ''number'', ''boolean''])"

definition morphToJson :: "platform \<Rightarrow> response \<Rightarrow> jsval \<Rightarrow> error + string option" where
  "morphToJson P r c =
     (case get_app r of
        Inl e \<Rightarrow> Inl (InvalidArgumentCause e)
      | Inr a \<Rightarrow> Inr (stringify P c (json_replacer a) (json_spaces a) (json_escape a)))"

text \<open>\<^verbatim>\<open>value ?? ''\<close> for the values that are not serialized: a string or a \<^verbatim>\<open>Buffer\<close> is
  kept, \<^verbatim>\<open>undefined\<close> and \<^verbatim>\<open>null\<close> give the empty string. (Every other value is
  serialized and never reaches this function.)\<close>

fun verbatim :: "jsval \<Rightarrow> content" where
  "verbatim (JStr s) = CStr s"
| "verbatim (JBuffer b) = CBuffer b"
| "verbatim v = CStr []"

definition setContent :: "platform \<Rightarrow> response \<Rightarrow> jsval \<Rightarrow> outcome" where
  "setContent P r v =
     (if shouldBeJson v then
        (case morphToJson P r v of
           Inl e \<Rightarrow> Inl (e, r)
         | Inr j \<Rightarrow> Inr (r\<lparr>content := (case j of None \<Rightarrow> CUndefined | Some t \<Rightarrow> CStr t),
                           originalContent := v\<rparr>))
      else Inr (r\<lparr>content := verbatim v, originalContent := v\<rparr>))"

definition setProtocolVersion :: "response \<Rightarrow> string \<Rightarrow> response" where
  "setProtocolVersion r v = r\<lparr>version := Some v\<rparr>"

section \<open>Construction\<close>

text \<open>\<^verbatim>\<open>constructor (content = '', status = 200, headers = {})\<close>: an argument left out or
  \<^verbatim>\<open>undefined\<close> takes its default. \<^verbatim>\<open>setHeaders\<close> returns the receiver of the next call of
  the chain, and an entry has no method \<^verbatim>\<open>setContent\<close>.

  Modelled from the spec: \<^verbatim>\<open>CookieCollection.instance()\<close>, of the missing file
  \<^verbatim>\<open>cookies/CookieCollection.mjs\<close>, is the empty jar (``created empty at Response
  construction'').\<close>

definition Response_new ::
  "platform \<Rightarrow> jsval \<Rightarrow> int option \<Rightarrow> headers_arg option \<Rightarrow> outcome" where
  "Response_new P content0 status0 headers0 =
     (let c = (case content0 of JUndefined \<Rightarrow> JStr [] | _ \<Rightarrow> content0);
          status = (case status0 of None \<Rightarrow> 200 | Some s \<Rightarrow> s);
          hs = (case headers0 of None \<Rightarrow> PlainObject [] | Some h \<Rightarrow> h) in
      case setStatus P blank status None of
        Inl x \<Rightarrow> Inl x
      | Inr r1 \<Rightarrow>
          (case setHeaders P r1 hs of
             Inl x \<Rightarrow> Inl x
           | Inr (Entry e, r2) \<Rightarrow> Inl (TypeError, r2)
           | Inr (This, r2) \<Rightarrow>
               (case setContent P r2 c of
                  Inl x \<Rightarrow> Inl x
                | Inr r3 \<Rightarrow> Inr ((setProtocolVersion r3 ''1.0'')\<lparr>cookieCollection := Some []\<rparr>))))"

section \<open>Cookies and \<^verbatim>\<open>prepare\<close>\<close>

text \<open>Modelled from the spec: \<^verbatim>\<open>CookieCollection\<close>, of the missing file
  \<^verbatim>\<open>cookies/CookieCollection.mjs\<close>. \<^verbatim>\<open>secure(value)\<close> is the ``global secure toggle
  applied to every cookie in the jar''; \<^verbatim>\<open>all(true)\<close> is the jar serialized, one
  Set-Cookie line per cookie.\<close>

definition CookieCollection_secure :: "cookie list \<Rightarrow> bool \<Rightarrow> cookie list" where
  "CookieCollection_secure jar v = map (\<lambda>c. c\<lparr>cookie_secure := v\<rparr>) jar"

definition CookieCollection_all :: "platform \<Rightarrow> cookie list \<Rightarrow> string list" where
  "CookieCollection_all P jar = map (cookie_line P) jar"

definition secureCookies :: "platform \<Rightarrow> response \<Rightarrow> bool \<Rightarrow> outcome" where
  "secureCookies P r v =
     (case cookieCollection r of
        None \<Rightarrow> Inl (TypeError, r)
      | Some jar \<Rightarrow>
          (let jar1 = CookieCollection_secure jar v in
           setHeader P (r\<lparr>cookieCollection := Some jar1\<rparr>) ''Set-Cookie''
             (JArr (map JStr (CookieCollection_all P jar1)))))"

definition setContentType :: "platform \<Rightarrow> response \<Rightarrow> string \<Rightarrow> outcome" where
  "setContentType P r v =
     setHeader P r ''Content-Type'' (if CHR ''/'' \<in> set v then JStr v else mime_lookup P v)"

text \<open>\<^verbatim>\<open>!this.getHeader('Content-Type') && this.setContentType(ext)\<close>: an absent or empty
  header is falsy.\<close>

definition inferContentType :: "platform \<Rightarrow> response \<Rightarrow> string \<Rightarrow> outcome" where
  "inferContentType P r ext =
     (case getHeader r ''Content-Type'' of
        Inl e \<Rightarrow> Inl (e, r)
      | Inr t \<Rightarrow> if t = None \<or> t = Some [] then setContentType P r ext else Inr r)"

text \<open>The \<^verbatim>\<open>switch\<close> on \<^verbatim>\<open>typeof this._content\<close>: a string gives \<^verbatim>\<open>html\<close>, a \<^verbatim>\<open>Buffer\<close>
  gives \<^verbatim>\<open>bin\<close>, \<^verbatim>\<open>undefined\<close> matches no case. (The case \<^verbatim>\<open>json\<close> asks for content that
  is an object, a number or a boolean, which the field never holds.)\<close>

definition prepare_type :: "platform \<Rightarrow> response \<Rightarrow> outcome" where
  "prepare_type P r =
     (case content r of
        CStr s \<Rightarrow> inferContentType P r ''html''
      | CBuffer b \<Rightarrow> inferContentType P r ''bin''
      | CUndefined \<Rightarrow> Inr r)"

text \<open>The last branch of \<^verbatim>\<open>prepare\<close>, in four steps. First the charset: \<^verbatim>\<open>type\<close>,
  \<^verbatim>\<open>etagFn\<close> and \<^verbatim>\<open>generateETag\<close> are read, the charset defaults to \<^verbatim>\<open>UTF-8\<close>, and a
  Content-Type with no charset gets one.\<close>

definition prepare_charset ::
  "platform \<Rightarrow> response \<Rightarrow> (error \<times> response) + ((etag_cfg \<times> bool) \<times> response)" where
  "prepare_charset P r =
     (case getHeader r ''Content-Type'' of
        Inl e \<Rightarrow> Inl (e, r)
      | Inr type \<Rightarrow>
         (case get_app r of
            Inl e \<Rightarrow> Inl (e, r)
          | Inr a \<Rightarrow>
             (case hasHeader r ''ETag'' of
                Inl e \<Rightarrow> Inl (e, r)
              | Inr has \<Rightarrow>
                 (let etagFn = etag_function a;
                      generateETag = (\<not> has \<and> (case etagFn of EtagOther v \<Rightarrow> False | _ \<Rightarrow> True));
                      cs = (case charset r of None \<Rightarrow> ''UTF-8'' | Some c \<Rightarrow> c);
                      r1 = r\<lparr>charset := Some cs\<rparr> in
                  case (case type of
                          Some t \<Rightarrow> if \<not> charsetRegExp_test t
                                    then setContentType P r1 (t @ ''; charset='' @ cs)
                                    else Inr r1
                        | None \<Rightarrow> Inr r1) of
                    Inl x \<Rightarrow> Inl x
                  | Inr r2 \<Rightarrow> Inr ((etagFn, generateETag), r2)))))"

text \<open>Then the length: \<open>None\<close> is a \<^verbatim>\<open>length\<close> left \<^verbatim>\<open>undefined\<close>.\<close>

definition setContentLength ::
  "platform \<Rightarrow> response \<Rightarrow> nat \<Rightarrow> (error \<times> response) + (nat option \<times> response)" where
  "setContentLength P r n =
     (case setHeader P r ''Content-Length'' (JNumber (Num (int n))) of
        Inl x \<Rightarrow> Inl x
      | Inr r1 \<Rightarrow> Inr (Some n, r1))"

definition prepare_length ::
  "platform \<Rightarrow> response \<Rightarrow> bool \<Rightarrow> (error \<times> response) + (nat option \<times> response)" where
  "prepare_length P r generateETag =
     (case content r of
        CUndefined \<Rightarrow> Inr (None, r)
      | CBuffer b \<Rightarrow> setContentLength P r (length b)
      | CStr s \<Rightarrow>
          if \<not> generateETag \<and> length s < 1000 then
            setContentLength P r (byteLength P s (charset r))
          else
            (case Buffer_from P s (charset r) of
               None \<Rightarrow> Inl (TypeError, r)
             | Some b \<Rightarrow> setContentLength P (r\<lparr>content := CBuffer b, charset := None\<rparr>) (length b)))"

text \<open>Then the ETag. The fallback of \<^verbatim>\<open>app.get\<close> is the private method
  \<^verbatim>\<open>#defaultEtagFn\<close> taken off the object; called as \<^verbatim>\<open>etagFn(...)\<close> it has no \<^verbatim>\<open>this\<close>
  and its read of \<^verbatim>\<open>this.#getHashedContent\<close> throws.\<close>

definition prepare_etag ::
  "platform \<Rightarrow> response \<Rightarrow> etag_cfg \<Rightarrow> bool \<Rightarrow> nat option \<Rightarrow> outcome" where
  "prepare_etag P r etagFn generateETag len =
     (if generateETag \<and> len \<noteq> None then
        (case etagFn of
           EtagUnset \<Rightarrow> Inl (TypeError, r)
         | EtagFunction f \<Rightarrow>
             (let etag = f (content r) (charset r) in
              if truthy etag then setHeader P r ''ETag'' etag else Inr r)
         | EtagOther v \<Rightarrow> Inr r)
      else Inr r)"

text \<open>Then the framing and the \<^verbatim>\<open>HEAD\<close> request.\<close>

definition prepare_framing :: "platform \<Rightarrow> response \<Rightarrow> request \<Rightarrow> outcome" where
  "prepare_framing P r req =
     (case hasHeader r ''Transfer-Encoding'' of
        Inl e \<Rightarrow> Inl (e, r)
      | Inr te \<Rightarrow>
          chain (if te then removeHeader r [''Content-Length''] else Inr r)
            (\<lambda>r1. if req_isMethod req ''HEAD'' then setContent P r1 JNull else Inr r1))"

definition prepare_body :: "platform \<Rightarrow> response \<Rightarrow> request \<Rightarrow> outcome" where
  "prepare_body P r req =
     (case prepare_charset P r of
        Inl x \<Rightarrow> Inl x
      | Inr ((etagFn, generateETag), r1) \<Rightarrow>
          (case prepare_length P r1 generateETag of
             Inl x \<Rightarrow> Inl x
           | Inr (len, r2) \<Rightarrow>
               chain (prepare_etag P r2 etagFn generateETag len)
                 (\<lambda>r3. prepare_framing P r3 req)))"

text \<open>The three branches on the status.\<close>

definition prepare_status :: "platform \<Rightarrow> response \<Rightarrow> request \<Rightarrow> outcome" where
  "prepare_status P r req =
     (if isInformational r \<or> isEmpty r then
        chain (setContent P r JNull)
          (\<lambda>r1. removeHeader r1 [''Content-Type'', ''Content-Length'', ''Transfer-Encoding''])
      else if isResetContent r then
        chain (setContent P r JNull)
          (\<lambda>r1. chain (setHeader P r1 ''Content-Length'' (JStr ''0''))
                   (\<lambda>r2. removeHeader r2 [''Transfer-Encoding'']))
      else prepare_body P r req)"

definition prepare :: "platform \<Rightarrow> response \<Rightarrow> request \<Rightarrow> outcome" where
  "prepare P r0 req =
     (let r = r0\<lparr>requestResolver := Some req\<rparr> in
      chain (prepare_type P r)
        (\<lambda>r1. let r2 = (if req_isFresh req (headers r1) (statusCode r1)
                         then r1\<lparr>statusCode := Some 304\<rparr> else r1) in
           chain (prepare_status P r2 req)
             (\<lambda>r3. let r4 = (if req_server_get req ''SERVER_PROTOCOL'' \<noteq> JStr ''HTTP/1.0''
                              then setProtocolVersion r3 ''1.1'' else r3) in
                if req_isSecure req then secureCookies P r4 True else Inr r4)))"

section \<open>Cache\<close>

subsection \<open>Numbers\<close>

text \<open>\<^verbatim>\<open>parseInt\<close>: white space, a sign, an optional \<^verbatim>\<open>0x\<close>, then the longest run of
  digits; \<^verbatim>\<open>NaN\<close> when there is none. The argument is converted to a string first,
  so \<open>parseInt\<close> is the result for a value that converts; the callers test
  \<open>stringable\<close> where the value can be an object.\<close>

definition digit_value :: "char \<Rightarrow> nat option" where
  "digit_value c =
     map_of (zip ''0123456789abcdefABCDEF''
                 [0, 1, 2, 3, 4, 5, 6, 7, 8, 9, 10, 11, 12, 13, 14, 15, 10, 11, 12, 13, 14, 15]) c"

definition is_digit :: "nat \<Rightarrow> char \<Rightarrow> bool" where
  "is_digit radix c = (case digit_value c of None \<Rightarrow> False | Some d \<Rightarrow> d < radix)"

definition digits_value :: "nat \<Rightarrow> string \<Rightarrow> nat" where
  "digits_value radix ds = foldl (\<lambda>acc c. acc * radix + the (digit_value c)) 0 ds"

definition parseInt_string :: "platform \<Rightarrow> string \<Rightarrow> number" where
  "parseInt_string P s =
     (let s1 = dropWhile is_space s;
          neg = (take 1 s1 = ''-'');
          s2 = (if take 1 s1 = ''-'' \<or> take 1 s1 = ''+'' then drop 1 s1 else s1);
          hex = (take 2 s2 = ''0x'' \<or> take 2 s2 = ''0X'');
          radix = (if hex then 16 else 10);
          s3 = (if hex then drop 2 s2 else s2);
          ds = takeWhile (is_digit radix) s3 in
      if ds = [] then NaN
      else number_of P (if neg then - int (digits_value radix ds) else int (digits_value radix ds)))"

definition parseInt :: "platform \<Rightarrow> jsval \<Rightarrow> number" where
  "parseInt P v = parseInt_string P (to_String P v)"

text \<open>Subtraction: an infinity minus itself and anything with \<^verbatim>\<open>NaN\<close> is \<^verbatim>\<open>NaN\<close>.\<close>

fun number_sub :: "platform \<Rightarrow> number \<Rightarrow> number \<Rightarrow> number" where
  "number_sub P (Num x) (Num y) = number_of P (x - y)"
| "number_sub P NaN b = NaN"
| "number_sub P a NaN = NaN"
| "number_sub P PosInfinity PosInfinity = NaN"
| "number_sub P NegInfinity NegInfinity = NaN"
| "number_sub P PosInfinity b = PosInfinity"
| "number_sub P NegInfinity b = NegInfinity"
| "number_sub P (Num x) PosInfinity = NegInfinity"
| "number_sub P (Num x) NegInfinity = PosInfinity"

text \<open>\<^verbatim>\<open>Math.max\<close> of two numbers: \<^verbatim>\<open>NaN\<close> when either is.\<close>

fun Math_max :: "number \<Rightarrow> number \<Rightarrow> number" where
  "Math_max (Num x) (Num y) = Num (max x y)"
| "Math_max NaN b = NaN"
| "Math_max a NaN = NaN"
| "Math_max PosInfinity b = PosInfinity"
| "Math_max a PosInfinity = PosInfinity"
| "Math_max NegInfinity b = b"
| "Math_max a NegInfinity = a"

text \<open>\<^verbatim>\<open>x > 0\<close> for a number or \<^verbatim>\<open>null\<close> (\<open>None\<close>): \<^verbatim>\<open>null\<close> counts as 0 and a
  comparison with \<^verbatim>\<open>NaN\<close> is false.\<close>

definition positive :: "number option \<Rightarrow> bool" where
  "positive x = (case x of Some (Num n) \<Rightarrow> n > 0 | Some PosInfinity \<Rightarrow> True | _ \<Rightarrow> False)"

subsection \<open>The directive map\<close>

definition hasHeaderCacheControlDirective :: "response \<Rightarrow> string \<Rightarrow> error + bool" where
  "hasHeaderCacheControlDirective r key =
     (case headerCacheControl r of
        None \<Rightarrow> Inl TypeError
      | Some m \<Rightarrow> Inr (map_of m key \<noteq> None))"

definition getHeaderCacheControlDirective :: "response \<Rightarrow> string \<Rightarrow> error + jsval" where
  "getHeaderCacheControlDirective r key =
     (case headerCacheControl r of
        None \<Rightarrow> Inl TypeError
      | Some m \<Rightarrow> Inr (case map_of m key of None \<Rightarrow> JUndefined | Some v \<Rightarrow> v))"

text \<open>The \<^verbatim>\<open>reduce\<close> of \<^verbatim>\<open>getHeaderCacheControlHeader\<close>, from the empty string.\<close>

definition getHeaderCacheControlHeader :: "platform \<Rightarrow> response \<Rightarrow> error + string" where
  "getHeaderCacheControlHeader P r =
     (case headerCacheControl r of
        None \<Rightarrow> Inl TypeError
      | Some m \<Rightarrow>
          if list_all (\<lambda>kv. snd kv = JBool True \<or> stringable (snd kv)) m then
            Inr (foldl (\<lambda>prev kv. if snd kv = JBool True then prev @ '', ''
                                  else prev @ '', '' @ fst kv @ ''='' @ to_String P (snd kv))
                       [] m)
          else Inl TypeError)"

definition cacheControl_setHeader :: "platform \<Rightarrow> response \<Rightarrow> outcome" where
  "cacheControl_setHeader P r =
     (case getHeaderCacheControlHeader P r of
        Inl e \<Rightarrow> Inl (e, r)
      | Inr h \<Rightarrow> setHeader P r ''Cache-Control'' (JStr h))"

text \<open>\<^verbatim>\<open>addHeaderCacheControlDirective(key, value = true)\<close>: the map is created when it is
  missing.\<close>

definition addHeaderCacheControlDirective ::
  "platform \<Rightarrow> response \<Rightarrow> string \<Rightarrow> jsval \<Rightarrow> outcome" where
  "addHeaderCacheControlDirective P r key value0 =
     (let v = (if value0 = JUndefined then JBool True else value0);
          m = (case headerCacheControl r of None \<Rightarrow> [] | Some m \<Rightarrow> m) in
      cacheControl_setHeader P (r\<lparr>headerCacheControl := Some (AList.update key v m)\<rparr>))"

definition removeCacheControlDirective :: "platform \<Rightarrow> response \<Rightarrow> string \<Rightarrow> outcome" where
  "removeCacheControlDirective P r key =
     (case headerCacheControl r of
        None \<Rightarrow> Inl (TypeError, r)
      | Some m \<Rightarrow> cacheControl_setHeader P (r\<lparr>headerCacheControl := Some (AList.delete key m)\<rparr>))"

text \<open>\<^verbatim>\<open>setPrivate\<close>, \<^verbatim>\<open>setPublic\<close> and \<^verbatim>\<open>setImmutable\<close> call
  \<^verbatim>\<open>this.removeHeaderCacheControlDirective\<close>. The class has no method of that name (its
  method is \<^verbatim>\<open>removeCacheControlDirective\<close>), so the call throws a \<^verbatim>\<open>TypeError\<close>.\<close>

definition removeHeaderCacheControlDirective :: "platform \<Rightarrow> response \<Rightarrow> string \<Rightarrow> outcome" where
  "removeHeaderCacheControlDirective P r key = Inl (TypeError, r)"

definition setPrivate :: "platform \<Rightarrow> response \<Rightarrow> outcome" where
  "setPrivate P r =
     chain (removeHeaderCacheControlDirective P r ''public'')
       (\<lambda>r1. addHeaderCacheControlDirective P r1 ''private'' JUndefined)"

definition setPublic :: "platform \<Rightarrow> response \<Rightarrow> outcome" where
  "setPublic P r =
     chain (removeHeaderCacheControlDirective P r ''private'')
       (\<lambda>r1. addHeaderCacheControlDirective P r1 ''public'' JUndefined)"

definition setImmutable :: "platform \<Rightarrow> response \<Rightarrow> bool \<Rightarrow> outcome" where
  "setImmutable P r immutable =
     (if immutable then addHeaderCacheControlDirective P r ''immutable'' JUndefined
      else removeHeaderCacheControlDirective P r ''immutable'')"

definition setMaxAge :: "platform \<Rightarrow> response \<Rightarrow> jsval \<Rightarrow> outcome" where
  "setMaxAge P r v = addHeaderCacheControlDirective P r ''max-age'' v"

definition setStaleIfError :: "platform \<Rightarrow> response \<Rightarrow> jsval \<Rightarrow> outcome" where
  "setStaleIfError P r v = addHeaderCacheControlDirective P r ''stale-if-error'' v"

definition setStaleWhileRevalidate :: "platform \<Rightarrow> response \<Rightarrow> jsval \<Rightarrow> outcome" where
  "setStaleWhileRevalidate P r v = addHeaderCacheControlDirective P r ''stale-while-revalidate'' v"

definition setSharedMaxAge :: "platform \<Rightarrow> response \<Rightarrow> jsval \<Rightarrow> outcome" where
  "setSharedMaxAge P r v =
     chain (setPublic P r) (\<lambda>r1. addHeaderCacheControlDirective P r1 ''s-maxage'' v)"

subsection \<open>Age, freshness and cacheability\<close>

text \<open>A header value is a string, and an absent header is \<^verbatim>\<open>null\<close>: neither has a
  method \<^verbatim>\<open>getTime\<close>, so the call throws.\<close>

definition header_getTime :: "string option \<Rightarrow> error + int" where
  "header_getTime v = Inl TypeError"

definition header_value :: "string option \<Rightarrow> jsval" where
  "header_value v = (case v of None \<Rightarrow> JNull | Some s \<Rightarrow> JStr s)"

definition getDate :: "response \<Rightarrow> error + string option" where
  "getDate r = (case headers r of None \<Rightarrow> Inl TypeError | Some h \<Rightarrow> Inr (Headers_get h ''Date''))"

definition getExpires :: "response \<Rightarrow> error + string option" where
  "getExpires r = (case headers r of None \<Rightarrow> Inl TypeError | Some h \<Rightarrow> Inr (Headers_get h ''Expires''))"

text \<open>\<^verbatim>\<open>getAge\<close>: the Age header is parsed when the bag does \<^emph>\<open>not\<close> have it; otherwise
  the age is computed from the clock and the Date header.\<close>

definition getAge :: "platform \<Rightarrow> response \<Rightarrow> error + number" where
  "getAge P r =
     (case headers r of
        None \<Rightarrow> Inl TypeError
      | Some h \<Rightarrow>
          if \<not> Headers_has h ''Age'' then Inr (parseInt P (header_value (Headers_get h ''Age'')))
          else
            (case header_getTime (Headers_get h ''Date'') of
               Inl e \<Rightarrow> Inl e
             | Inr t \<Rightarrow>
                 Inr (Math_max (number_sub P (Num (now P)) (parseInt P (JNumber (Num t)))) (Num 0))))"

text \<open>\<^verbatim>\<open>getMaxAge\<close>: \<open>Inr None\<close> is the result \<^verbatim>\<open>null\<close>.\<close>

definition getMaxAge :: "platform \<Rightarrow> response \<Rightarrow> error + number option" where
  "getMaxAge P r =
     (case headerCacheControl r of
        None \<Rightarrow> Inl TypeError
      | Some m \<Rightarrow>
          (case map_of m ''s-maxage'' of
             Some v \<Rightarrow> if stringable v then Inr (Some (parseInt P v)) else Inl TypeError
           | None \<Rightarrow>
               (case map_of m ''max-age'' of
                  Some v \<Rightarrow> if stringable v then Inr (Some (parseInt P v)) else Inl TypeError
                | None \<Rightarrow>
                    (case getExpires r of
                       Inl e \<Rightarrow> Inl e
                     | Inr x \<Rightarrow>
                         if truthy (header_value x) then
                           (case header_getTime x of
                              Inl e \<Rightarrow> Inl e
                            | Inr t1 \<Rightarrow>
                                (case getDate r of
                                   Inl e \<Rightarrow> Inl e
                                 | Inr d \<Rightarrow>
                                     (case header_getTime d of
                                        Inl e \<Rightarrow> Inl e
                                      | Inr t2 \<Rightarrow> Inr (Some (Math_max (number_sub P (Num t1) (Num t2)) (Num 0))))))
                         else Inr None))))"

definition getTtl :: "platform \<Rightarrow> response \<Rightarrow> error + number option" where
  "getTtl P r =
     (case getMaxAge P r of
        Inl e \<Rightarrow> Inl e
      | Inr None \<Rightarrow> Inr None
      | Inr (Some maxAge) \<Rightarrow>
          (case getAge P r of
             Inl e \<Rightarrow> Inl e
           | Inr age \<Rightarrow> Inr (Some (Math_max (number_sub P maxAge age) (Num 0)))))"

definition isFresh :: "platform \<Rightarrow> response \<Rightarrow> error + bool" where
  "isFresh P r = (case getTtl P r of Inl e \<Rightarrow> Inl e | Inr ttl \<Rightarrow> Inr (positive ttl))"

definition isValidateable :: "response \<Rightarrow> error + bool" where
  "isValidateable r =
     (case headers r of
        None \<Rightarrow> Inl TypeError
      | Some h \<Rightarrow> Inr (Headers_has h ''Last-Modified'' \<or> Headers_has h ''ETag''))"

text \<open>\<^verbatim>\<open>isCacheable\<close>: a status of the list answers \<^verbatim>\<open>false\<close> at once; \<^verbatim>\<open>||\<close> evaluates
  its right side only when the left is falsy.\<close>

definition isCacheable :: "platform \<Rightarrow> response \<Rightarrow> error + bool" where
  "isCacheable P r =
     (if (case statusCode r of None \<Rightarrow> False
          | Some c \<Rightarrow> c \<in> set [200, 203, 300, 301, 302, 404, 410])
      then Inr False
      else
        (case hasHeaderCacheControlDirective r ''no-store'' of
           Inl e \<Rightarrow> Inl e
         | Inr noStore \<Rightarrow>
             (case getHeaderCacheControlDirective r ''private'' of
                Inl e \<Rightarrow> Inl e
              | Inr priv \<Rightarrow>
                  if noStore \<or> truthy priv then Inr False
                  else
                    (case isValidateable r of
                       Inl e \<Rightarrow> Inl e
                     | Inr True \<Rightarrow> Inr True
                     | Inr False \<Rightarrow> isFresh P r))))"

subsection \<open>\<^verbatim>\<open>setCache\<close>\<close>

text \<open>\<^verbatim>\<open>setEtag(etag = null, weak = false)\<close>: only a string has \<^verbatim>\<open>startsWith\<close>.\<close>

definition setEtag :: "platform \<Rightarrow> response \<Rightarrow> jsval \<Rightarrow> bool \<Rightarrow> outcome" where
  "setEtag P r etag weak =
     (if \<not> truthy etag then removeHeader r [''ETag'']
      else
        (case etag of
           JStr s \<Rightarrow>
             (let q = (if take 1 s = [CHR 0x22] then s else [CHR 0x22] @ s @ [CHR 0x22]) in
              setHeader P r ''ETag'' (JStr ((if weak then ''W/'' else []) @ q)))
         | _ \<Rightarrow> Inl (TypeError, r)))"

text \<open>\<^verbatim>\<open>setLastModified(date = null)\<close>: only a \<^verbatim>\<open>Date\<close> has \<^verbatim>\<open>toUTCString\<close>.\<close>

definition setLastModified :: "platform \<Rightarrow> response \<Rightarrow> jsval \<Rightarrow> outcome" where
  "setLastModified P r date =
     (if \<not> truthy date then removeHeader r [''Last-Modified'']
      else
        (case date of
           JDate t \<Rightarrow> setHeader P r ''Last-Modified'' (JStr (date_toUTCString P t))
         | _ \<Rightarrow> Inl (TypeError, r)))"

text \<open>The table \<^verbatim>\<open>#HTTP_RESPONSE_CACHE_CONTROL_DIRECTIVES\<close>, in the order of its keys.\<close>

definition HTTP_RESPONSE_CACHE_CONTROL_DIRECTIVES :: "(string \<times> bool) list" where
  "HTTP_RESPONSE_CACHE_CONTROL_DIRECTIVES =
     [(''must_revalidate'', False), (''no_cache'', False), (''no_store'', False),
      (''no_transform'', False), (''public'', False), (''private'', False),
      (''proxy_revalidate'', False), (''max_age'', True), (''s_maxage'', True),
      (''stale_if_error'', True), (''stale_while_revalidate'', True), (''immutable'', False),
      (''last_modified'', True), (''etag'', True)]"

text \<open>\<^verbatim>\<open>options[key]\<close>: the property, or \<^verbatim>\<open>undefined\<close>.\<close>

definition option_of :: "(string \<times> jsval) list \<Rightarrow> string \<Rightarrow> jsval" where
  "option_of options key = (case map_of options key of None \<Rightarrow> JUndefined | Some v \<Rightarrow> v)"

text \<open>One optional step of \<^verbatim>\<open>setCache\<close>: \<^verbatim>\<open>if (options.key) this.setter(options.key)\<close>.\<close>

definition when_option ::
  "(string \<times> jsval) list \<Rightarrow> string \<Rightarrow> (response \<Rightarrow> jsval \<Rightarrow> outcome) \<Rightarrow> response \<Rightarrow> outcome" where
  "when_option options key setter r =
     (if truthy (option_of options key) then setter r (option_of options key) else Inr r)"

text \<open>The \<^verbatim>\<open>forEach\<close> over the table: for a directive whose table value is \<^verbatim>\<open>false\<close> and
  whose option is truthy, \<^verbatim>\<open>value.replace\<close> is called on that \<^verbatim>\<open>false\<close> and throws.\<close>

fun setCache_flags :: "(string \<times> jsval) list \<Rightarrow> (string \<times> bool) list \<Rightarrow> response \<Rightarrow> outcome" where
  "setCache_flags options [] r = Inr r"
| "setCache_flags options (kv # rest) r =
     (if \<not> snd kv \<and> truthy (option_of options (fst kv)) then Inl (TypeError, r)
      else setCache_flags options rest r)"

definition setCache_diff :: "(string \<times> jsval) list \<Rightarrow> string list" where
  "setCache_diff options =
     filter (\<lambda>curr. curr \<notin> set (map fst options)) (map fst HTTP_RESPONSE_CACHE_CONTROL_DIRECTIVES)"

definition setCache :: "platform \<Rightarrow> response \<Rightarrow> (string \<times> jsval) list \<Rightarrow> outcome" where
  "setCache P r options =
     (if length (setCache_diff options) > 0 then
        Inl (InvalidArgumentException
               (''Response does not support the following options: '' @ [CHR 0x22] @
                join '', '' (setCache_diff options) @ [CHR 0x22] @ ''.''), r)
      else
        chain (when_option options ''etag'' (\<lambda>r v. setEtag P r v False) r)
       (\<lambda>r. chain (when_option options ''last_modified'' (setLastModified P) r)
       (\<lambda>r. chain (when_option options ''max_age'' (setMaxAge P) r)
       (\<lambda>r. chain (when_option options ''s_maxage'' (setSharedMaxAge P) r)
       (\<lambda>r. chain (when_option options ''stale_while_revalidate'' (setStaleWhileRevalidate P) r)
       (\<lambda>r. chain (when_option options ''stale_if_error'' (setStaleIfError P) r)
       (\<lambda>r. chain (setCache_flags options HTTP_RESPONSE_CACHE_CONTROL_DIRECTIVES r)
       (\<lambda>r. chain (when_option options ''public'' (\<lambda>r v. setPublic P r) r)
       (\<lambda>r. when_option options ''private'' (\<lambda>r v. setPrivate P r) r)))))))))"

section \<open>A platform and an application to evaluate the model on\<close>

text \<open>A few entries of the status table, the charset rule of \<^verbatim>\<open>mime\<close> (UTF-8 for
  \<^verbatim>\<open>text/*\<close>, \<^verbatim>\<open>application/json\<close> and \<^verbatim>\<open>application/javascript\<close>), three file
  extensions, strings of ASCII characters (one byte each), and an application with no
  JSON option and no ETag function configured.\<close>

definition example_charsets_lookup :: "string \<Rightarrow> string option" where
  "example_charsets_lookup t =
     (if take 5 t = ''text/'' \<or> take 16 t = ''application/json''
         \<or> take 22 t = ''application/javascript''
      then Some ''UTF-8'' else None)"

definition example_platform :: platform where
  "example_platform = \<lparr>
     STATUS_TEXTS = map_of [(200, ''OK''), (204, ''No Content''), (205, ''Reset Content''),
                            (304, ''Not Modified''), (404, ''Not Found'')],
     charsets_lookup = example_charsets_lookup,
     mime_lookup = (\<lambda>e. case map_of [(''html'', ''text/html''), (''json'', ''application/json'')] e of
                          Some t \<Rightarrow> JStr t | None \<Rightarrow> JStr ''application/octet-stream''),
     now = 1000000,
     date_toString = show_decimal,
     date_toISOString = show_decimal,
     date_toUTCString = show_decimal,
     buffer_toString = (\<lambda>b. b),
     byteLength = (\<lambda>s enc. length s),
     Buffer_from = (\<lambda>s enc. Some s),
     iterator_reduce = True,
     cookie_line = (\<lambda>c. cookie_name c @ ''='' @ cookie_value c @
                          (if cookie_secure c then ''; Secure'' else [])),
     large_number = Num,
     large_toString = show_decimal \<rparr>"

definition example_app :: app where
  "example_app = \<lparr> json_replacer = JUndefined, json_spaces = JUndefined,
     json_escape = JUndefined, etag_function = EtagUnset \<rparr>"

text \<open>A response as a subclass that fills the fields can leave it: status 200, an
  empty header bag, empty content, an empty cookie jar and an empty directive map.\<close>

definition example_response :: response where
  "example_response = blank\<lparr> headers := Some [], content := CStr [], version := Some ''1.0'',
     statusCode := Some 200, statusMessage := Some ''OK'', appResolver := Some example_app,
     originalContent := JStr [], cookieCollection := Some [], headerCacheControl := Some [] \<rparr>"

text \<open>A \<^verbatim>\<open>GET\<close> request over plain HTTP/1.1 that matches no validator.\<close>

definition example_request :: request where
  "example_request = \<lparr> req_isFresh = (\<lambda>h c. False),
     req_isMethod = (\<lambda>m. toLowerCase m = ''get''),
     req_server_get = (\<lambda>k. if k = ''SERVER_PROTOCOL'' then JStr ''HTTP/1.1'' else JUndefined),
     req_isSecure = False \<rparr>"

text \<open>The example response with the content \<^verbatim>\<open>hello\<close>, the three framing headers and a
  given status.\<close>

definition example_with_body :: "int \<Rightarrow> response" where
  "example_with_body c = example_response\<lparr>statusCode := Some c, content := CStr ''hello'',
     headers := Some [(''content-type'', ''text/plain; charset=utf-8''),
                      (''content-length'', ''5''), (''transfer-encoding'', ''chunked'')]\<rparr>"

section \<open>Shared facts\<close>

subsection \<open>Strings, headers and content\<close>

lemma lower_content_type: "toLowerCase ''Content-Type'' = ''content-type''"
  by (simp add: toLowerCase_def lower_char_def)

lemma headers_None_setHeader:
  "headers r = None \<Longrightarrow> \<exists>e s. setHeader P r k v = Inl (e, s)"
  by (auto simp: setHeader_def headers_set_def Let_def
           split: jsval.splits hvalue.splits option.splits)

lemma setStatus_headers: "setStatus P r c t = Inr r1 \<Longrightarrow> headers r1 = headers r"
  by (auto simp: setStatus_def Let_def split: if_splits option.splits)

lemma stringify_null: "stringify P JNull rep sp esc = Some ''null''"
  by (simp add: stringify_def JSON_stringify_def escape_char_def Let_def)

lemma setContent_JNull:
  "setContent P r JNull =
     (case appResolver r of
        None \<Rightarrow> Inl (InvalidArgumentCause (LogicException ''Must set an Application resolver.''), r)
      | Some a \<Rightarrow> Inr (r\<lparr>content := CStr ''null'', originalContent := JNull\<rparr>))"
  by (simp add: setContent_def shouldBeJson_def morphToJson_def get_app_def stringify_null
           split: option.splits)

lemma charset_fragment_matches: "charsetRegExp_test (a @ ''; charset='' @ b)"
  by (induction a) (simp_all add: charset_tail_def is_space_def)

lemma header_names:
  "is_header_name ''Content-Type''" "is_header_name ''Content-Length''"
  "is_header_name ''Transfer-Encoding''" "is_header_name ''Set-Cookie''"
  "is_header_name ''Cache-Control''" "is_header_name ''ETag''" "is_header_name ''Age''"
  "is_header_name ''Last-Modified''" "is_header_name ''X-Powered-By''"
  by (simp_all add: is_header_name_def token_char_def)

lemma getHeader_headers_set:
  "headers r = Some h \<Longrightarrow> toLowerCase key = toLowerCase key' \<Longrightarrow>
   is_header_name key \<Longrightarrow> is_header_name key' \<Longrightarrow> is_header_value (normalize_value s) \<Longrightarrow>
     \<exists>r'. headers_set r key (HString s) = Inr r' \<and>
          getHeader r' key' = Inr (Some (normalize_value s))"
  by (simp add: headers_set_def getHeader_def Headers_get_def Headers_set_def update_conv'
        hvalue_text_def)

lemma parseInt_null: "parseInt P JNull = NaN"
  by (simp add: parseInt_def parseInt_string_def is_space_def is_digit_def digit_value_def Let_def)

lemmas number_defs =
  show_number_def show_int_def show_decimal_def is_safe_def number_of_def show_nat.simps
  digit_char_def

lemmas header_defs =
  headers_set_def Headers_set_def hvalue_text_def is_header_name_def token_char_def
  normalize_value_def http_whitespace_def is_header_value_def toLowerCase_def lower_char_def

subsection \<open>What the steps of \<^verbatim>\<open>prepare\<close> leave unchanged\<close>

lemma headers_set_frame:
  "headers_set r k v = Inr r' \<Longrightarrow>
     statusCode r' = statusCode r \<and> content r' = content r \<and>
     (\<exists>h h1. headers r = Some h \<and> Headers_set h k v = Some h1 \<and> headers r' = Some h1)"
  by (auto simp: headers_set_def split: option.splits)

lemma setHeader_frame:
  "setHeader P r k v = Inr r' \<Longrightarrow>
     statusCode r' = statusCode r \<and> content r' = content r \<and>
     (\<exists>h t h1. headers r = Some h \<and> Headers_set h k t = Some h1 \<and> headers r' = Some h1)"
  unfolding setHeader_def Let_def
  by (auto split: if_splits hvalue.splits jsval.splits option.splits dest!: headers_set_frame)

lemma setContentType_frame:
  "setContentType P r v = Inr r' \<Longrightarrow>
     statusCode r' = statusCode r \<and> content r' = content r"
  unfolding setContentType_def by (auto dest!: setHeader_frame)

lemma removeHeader_frame:
  "removeHeader r ks = Inr r' \<Longrightarrow>
     statusCode r' = statusCode r \<and> content r' = content r \<and>
     (\<exists>h. headers r = Some h \<or> ks = []) \<and>
     (\<forall>h. headers r = Some h \<longrightarrow> headers r' = Some (fold (\<lambda>k h. Headers_delete h k) ks h))"
proof (induction ks arbitrary: r)
  case Nil
  then show ?case by simp
next
  case (Cons k ks)
  then show ?case by (auto split: option.splits if_splits)
qed

lemma setContent_status:
  "setContent P r v = Inr r' \<Longrightarrow> statusCode r' = statusCode r \<and> headers r' = headers r"
  by (auto simp: setContent_def split: if_splits sum.splits)

lemma prepare_type_status: "prepare_type P r = Inr r' \<Longrightarrow> statusCode r' = statusCode r"
  by (auto simp: prepare_type_def inferContentType_def split: content.splits sum.splits if_splits
           dest!: setContentType_frame)

lemma prepare_charset_status:
  "prepare_charset P r = Inr (x, r') \<Longrightarrow> statusCode r' = statusCode r"
  by (auto simp: prepare_charset_def Let_def split: sum.splits option.splits if_splits
           dest!: setContentType_frame)

lemma prepare_length_status:
  "prepare_length P r g = Inr (x, r') \<Longrightarrow> statusCode r' = statusCode r"
  by (auto simp: prepare_length_def setContentLength_def split: content.splits sum.splits option.splits if_splits
           dest!: setHeader_frame)

lemma prepare_etag_status:
  "prepare_etag P r f g n = Inr r' \<Longrightarrow> statusCode r' = statusCode r"
  by (auto simp: prepare_etag_def Let_def split: etag_cfg.splits if_splits dest!: setHeader_frame)

lemma prepare_framing_status:
  "prepare_framing P r req = Inr r' \<Longrightarrow> statusCode r' = statusCode r"
  by (auto simp: prepare_framing_def chain_def simp del: removeHeader.simps
           split: sum.splits if_splits dest!: removeHeader_frame setContent_status)

lemma prepare_body_status:
  "prepare_body P r req = Inr r' \<Longrightarrow> statusCode r' = statusCode r"
  by (auto simp: prepare_body_def chain_def split: sum.splits prod.splits
           dest!: prepare_charset_status prepare_length_status prepare_etag_status prepare_framing_status)

lemma secureCookies_frame:
  "secureCookies P r b = Inr r' \<Longrightarrow>
     statusCode r' = statusCode r \<and> content r' = content r \<and>
     (\<exists>h t h1. headers r = Some h \<and> Headers_set h ''Set-Cookie'' t = Some h1 \<and>
        headers r' = Some h1)"
  by (auto simp: secureCookies_def Let_def split: option.splits dest!: setHeader_frame)

lemma get_other_set:
  "Headers_set h k t = Some h1 \<Longrightarrow> toLowerCase k' \<noteq> toLowerCase k \<Longrightarrow>
     Headers_get h1 k' = Headers_get h k'"
  by (auto simp: Headers_get_def Headers_set_def Let_def update_conv' split: if_splits)

lemma get_same_set:
  "Headers_set h k t = Some h1 \<Longrightarrow> Headers_get h1 k = Some (normalize_value (hvalue_text t))"
  by (auto simp: Headers_get_def Headers_set_def Let_def update_conv' split: if_splits)

lemma get_delete:
  "Headers_get (Headers_delete h k) k' = (if toLowerCase k' = toLowerCase k then None else Headers_get h k')"
  by (simp add: Headers_get_def Headers_delete_def delete_conv')


lemma prepare_status_result:
  assumes "prepare_status P r req = Inr r'"
  shows "statusCode r' = statusCode r"
    and "isInformational r \<or> isEmpty r \<Longrightarrow>
           content r' = CStr ''null'' \<and>
           (\<exists>h. headers r' = Some h \<and> Headers_get h ''Content-Type'' = None \<and>
                Headers_get h ''Content-Length'' = None \<and>
                Headers_get h ''Transfer-Encoding'' = None)"
    and "isResetContent r \<Longrightarrow>
           content r' = CStr ''null'' \<and>
           (\<exists>h. headers r' = Some h \<and> Headers_get h ''Content-Length'' = Some ''0'' \<and>
                Headers_get h ''Transfer-Encoding'' = None)"
proof -
  have disj: "isResetContent r \<Longrightarrow> \<not> (isInformational r \<or> isEmpty r)"
    by (auto simp: isResetContent_def isInformational_def isEmpty_def split: option.splits)
  show "statusCode r' = statusCode r"
    using assms
    by (auto simp: prepare_status_def chain_def simp del: removeHeader.simps
             split: if_splits sum.splits
             dest!: setContent_status removeHeader_frame setHeader_frame prepare_body_status)
  {
    assume a: "isInformational r \<or> isEmpty r"
    with assms obtain ra where c: "setContent P r JNull = Inr ra"
      and rm: "removeHeader ra [''Content-Type'', ''Content-Length'', ''Transfer-Encoding''] = Inr r'"
      by (auto simp: prepare_status_def chain_def simp del: removeHeader.simps split: sum.splits)
    from c have ra: "content ra = CStr ''null''"
      by (auto simp: setContent_JNull split: option.splits)
    from rm obtain h where h: "headers ra = Some h"
      using removeHeader_frame [OF rm] by auto
    with rm have "headers r' = Some (fold (\<lambda>k h. Headers_delete h k)
                    [''Content-Type'', ''Content-Length'', ''Transfer-Encoding''] h)"
      using removeHeader_frame [OF rm] by blast
    moreover have "content r' = content ra"
      using removeHeader_frame [OF rm] by blast
    ultimately show "content r' = CStr ''null'' \<and>
           (\<exists>h. headers r' = Some h \<and> Headers_get h ''Content-Type'' = None \<and>
                Headers_get h ''Content-Length'' = None \<and>
                Headers_get h ''Transfer-Encoding'' = None)"
      using ra by (simp add: get_delete toLowerCase_def lower_char_def)
  }
  {
    assume a: "isResetContent r"
    with assms disj obtain ra rb where c: "setContent P r JNull = Inr ra"
      and st: "setHeader P ra ''Content-Length'' (JStr ''0'') = Inr rb"
      and rm: "removeHeader rb [''Transfer-Encoding''] = Inr r'"
      by (auto simp: prepare_status_def chain_def simp del: removeHeader.simps split: sum.splits)
    from c have ra: "content ra = CStr ''null''"
      by (auto simp: setContent_JNull split: option.splits)
    from st obtain h h1 where hs: "Headers_set h ''Content-Length'' (HString ''0'') = Some h1"
      and hb: "headers rb = Some h1" and cb: "content rb = content ra"
      by (auto simp: setHeader_def toLowerCase_def lower_char_def dest!: headers_set_frame)
    from rm hb have "headers r' = Some (fold (\<lambda>k h. Headers_delete h k) [''Transfer-Encoding''] h1)"
      using removeHeader_frame [OF rm] by blast
    moreover have "content r' = content rb"
      using removeHeader_frame [OF rm] by blast
    moreover have "Headers_get h1 ''Content-Length'' = Some ''0''"
      using get_same_set [OF hs]
      by (simp add: hvalue_text_def normalize_value_def http_whitespace_def)
    ultimately show "content r' = CStr ''null'' \<and>
           (\<exists>h. headers r' = Some h \<and> Headers_get h ''Content-Length'' = Some ''0'' \<and>
                Headers_get h ''Transfer-Encoding'' = None)"
      using ra cb
      by (simp add: get_delete toLowerCase_def lower_char_def)
  }
qed

subsection \<open>\<^verbatim>\<open>prepare\<close> on the example responses\<close>

lemmas example_defs =
  example_with_body_def example_response_def example_request_def example_platform_def
  example_charsets_lookup_def example_app_def blank_def

lemma prepare_example_204:
  "prepare example_platform (example_with_body 204) example_request =
     Inr (example_response\<lparr>statusCode := Some 204, content := CStr ''null'',
            headers := Some [], requestResolver := Some example_request,
            originalContent := JNull, version := Some ''1.1''\<rparr>)"
  by (simp add: prepare_def prepare_type_def inferContentType_def getHeader_def Headers_get_def
        prepare_status_def isInformational_def isEmpty_def isResetContent_def chain_def
        setContent_JNull Headers_delete_def example_defs header_defs
        Let_def setProtocolVersion_def)

lemma prepare_example_205:
  "prepare example_platform (example_with_body 205) example_request =
     Inr (example_response\<lparr>statusCode := Some 205, content := CStr ''null'',
            headers := Some [(''content-type'', ''text/plain; charset=utf-8''),
                             (''content-length'', ''0'')],
            requestResolver := Some example_request,
            originalContent := JNull, version := Some ''1.1''\<rparr>)"
  by (simp add: prepare_def prepare_type_def inferContentType_def getHeader_def Headers_get_def
        prepare_status_def isInformational_def isEmpty_def isResetContent_def chain_def
        setContent_JNull setHeader_def Headers_delete_def example_defs header_defs
        Let_def setProtocolVersion_def)

subsection \<open>The rendering of the directive map\<close>

lemma foldl_append_concat: "foldl (\<lambda>prev kv. prev @ g kv) acc m = acc @ concat (map g m)"
  by (induction m arbitrary: acc) simp_all

lemma getHeaderCacheControlHeader_concat:
  "headerCacheControl r = Some m \<Longrightarrow>
   list_all (\<lambda>kv. snd kv = JBool True \<or> stringable (snd kv)) m \<Longrightarrow>
     getHeaderCacheControlHeader P r =
       Inr (concat (map (\<lambda>kv. '', '' @ (if snd kv = JBool True then []
                                          else fst kv @ ''='' @ to_String P (snd kv))) m))"
proof -
  have "(\<lambda>prev kv. if snd kv = JBool True then prev @ '', ''
                    else prev @ '', '' @ fst kv @ ''='' @ to_String P (snd kv)) =
        (\<lambda>prev kv. prev @ '', '' @ (if snd kv = JBool True then []
                                      else fst kv @ ''='' @ to_String P (snd kv)))"
    by (auto simp: fun_eq_iff)
  then show ?thesis
    if "headerCacheControl r = Some m"
      and "list_all (\<lambda>kv. snd kv = JBool True \<or> stringable (snd kv)) m"
    using that foldl_append_concat [of "\<lambda>kv. '', '' @ (if snd kv = JBool True then []
                                      else fst kv @ ''='' @ to_String P (snd kv))" "[]" m]
    by (simp add: getHeaderCacheControlHeader_def)
qed

lemma cacheControl_setHeader_result:
  assumes "cacheControl_setHeader P r = Inr r'"
  shows "\<exists>m. headerCacheControl r' = Some m \<and>
           getHeader r' ''Cache-Control'' =
             Inr (Some (normalize_value
               (concat (map (\<lambda>kv. '', '' @ (if snd kv = JBool True then []
                                          else fst kv @ ''='' @ to_String P (snd kv))) m))))"
proof -
  from assms obtain m where m: "headerCacheControl r = Some m"
    and ok: "list_all (\<lambda>kv. snd kv = JBool True \<or> stringable (snd kv)) m"
    by (auto simp: cacheControl_setHeader_def getHeaderCacheControlHeader_def
          split: option.splits if_splits)
  let ?t = "concat (map (\<lambda>kv. '', '' @ (if snd kv = JBool True then []
                                          else fst kv @ ''='' @ to_String P (snd kv))) m)"
  from assms m ok have s: "setHeader P r ''Cache-Control'' (JStr ?t) = Inr r'"
    by (simp add: cacheControl_setHeader_def getHeaderCacheControlHeader_concat)
  then have hs: "headers_set r ''Cache-Control'' (HString ?t) = Inr r'"
    by (simp add: setHeader_def toLowerCase_def lower_char_def)
  then obtain h h1 where h1: "Headers_set h ''Cache-Control'' (HString ?t) = Some h1"
    and r': "headers r' = Some h1" and "headers r = Some h"
    using headers_set_frame [OF hs] by blast
  have "headerCacheControl r' = Some m"
    using hs m by (auto simp: headers_set_def split: option.splits)
  then show ?thesis
    using get_same_set [OF h1] r'
    by (simp add: getHeader_def header_names hvalue_text_def)
qed

subsection \<open>The errors of the cache setters\<close>

lemma headers_set_error: "headers_set r k v = Inl (e, s) \<Longrightarrow> e = TypeError"
  by (auto simp: headers_set_def split: option.splits)

lemma setHeader_error:
  "toLowerCase k \<noteq> ''content-type'' \<Longrightarrow> setHeader P r k v = Inl (e, s) \<Longrightarrow> e = TypeError"
  by (auto simp: setHeader_def Let_def split: if_splits dest: headers_set_error)

lemma removeHeader_error: "removeHeader r ks = Inl (e, s) \<Longrightarrow> e = TypeError"
  by (induction ks arbitrary: r) (auto split: option.splits if_splits)

lemma cacheControl_setHeader_error: "cacheControl_setHeader P r = Inl (e, s) \<Longrightarrow> e = TypeError"
  by (auto simp: cacheControl_setHeader_def getHeaderCacheControlHeader_def toLowerCase_def
        lower_char_def split: option.splits sum.splits if_splits dest!: setHeader_error [rotated])

lemma addDirective_error:
  "addHeaderCacheControlDirective P r k v = Inl (e, s) \<Longrightarrow> e = TypeError"
  by (auto simp: addHeaderCacheControlDirective_def Let_def dest: cacheControl_setHeader_error)

lemma removeDirective_error:
  "removeCacheControlDirective P r k = Inl (e, s) \<Longrightarrow> e = TypeError"
  by (auto simp: removeCacheControlDirective_def split: option.splits
           dest: cacheControl_setHeader_error)

lemma setPublic_throws: "setPublic P r = Inl (TypeError, r)"
  by (simp add: setPublic_def chain_def removeHeaderCacheControlDirective_def)

lemma setPrivate_throws: "setPrivate P r = Inl (TypeError, r)"
  by (simp add: setPrivate_def chain_def removeHeaderCacheControlDirective_def)

lemma setSharedMaxAge_throws: "setSharedMaxAge P r v = Inl (TypeError, r)"
  by (simp add: setSharedMaxAge_def chain_def setPublic_throws)

lemma setPublic_error: "setPublic P r = Inl (e, s) \<Longrightarrow> e = TypeError"
  by (simp add: setPublic_throws)

lemma setPrivate_error: "setPrivate P r = Inl (e, s) \<Longrightarrow> e = TypeError"
  by (simp add: setPrivate_throws)

lemma setSharedMaxAge_error: "setSharedMaxAge P r v = Inl (e, s) \<Longrightarrow> e = TypeError"
  by (simp add: setSharedMaxAge_throws)

lemma setEtag_error: "setEtag P r v w = Inl (e, s) \<Longrightarrow> e = TypeError"
  by (auto simp: setEtag_def Let_def toLowerCase_def lower_char_def simp del: removeHeader.simps
           split: if_splits jsval.splits dest: removeHeader_error dest!: setHeader_error [rotated])

lemma setLastModified_error: "setLastModified P r v = Inl (e, s) \<Longrightarrow> e = TypeError"
  by (auto simp: setLastModified_def toLowerCase_def lower_char_def simp del: removeHeader.simps
           split: if_splits jsval.splits dest: removeHeader_error dest!: setHeader_error [rotated])

lemma setCache_flags_error: "setCache_flags options ds r = Inl (e, s) \<Longrightarrow> e = TypeError"
  by (induction ds) (auto split: if_splits)

lemma when_option_error:
  "(\<And>r v e s. setter r v = Inl (e, s) \<Longrightarrow> e = TypeError) \<Longrightarrow>
     when_option options k setter r = Inl (e, s) \<Longrightarrow> e = TypeError"
  by (auto simp: when_option_def split: if_splits)

lemma chain_error:
  "chain m f = Inl (e, s) \<Longrightarrow> (\<And>s. m = Inl (e, s) \<Longrightarrow> Q) \<Longrightarrow> (\<And>r. f r = Inl (e, s) \<Longrightarrow> Q) \<Longrightarrow> Q"
  by (auto simp: chain_def split: sum.splits)

lemma setCache_steps_error:
  assumes "setCache P r options = Inl (e, s)" and "setCache_diff options = []"
  shows "e = TypeError"
proof -
  note w = when_option_error
  from assms show ?thesis
    unfolding setCache_def
    apply simp
    apply (erule chain_error, erule w [rotated], erule setEtag_error)
    apply (erule chain_error, erule w [rotated], erule setLastModified_error)
    apply (erule chain_error, erule w [rotated], simp add: setMaxAge_def, erule addDirective_error)
    apply (erule chain_error, erule w [rotated], erule setSharedMaxAge_error)
    apply (erule chain_error, erule w [rotated], simp add: setStaleWhileRevalidate_def, erule addDirective_error)
    apply (erule chain_error, erule w [rotated], simp add: setStaleIfError_def, erule addDirective_error)
    apply (erule chain_error, erule setCache_flags_error)
    apply (erule chain_error, erule w [rotated], erule setPublic_error)
    apply (erule w [rotated], erule setPrivate_error)
    done
qed

section \<open>Status assignment\<close>

lemma isInvalid_statusCode:
  "isInvalid (r\<lparr>statusCode := Some c\<rparr>) = (c < 100 \<or> c \<ge> 600)"
  by (simp add: isInvalid_def)

text \<open>
  Claim C3. For every integer code \<open>c\<close> with \<open>100 \<le> c \<le> 599\<close>, \<^verbatim>\<open>setStatus(c)\<close>
  succeeds, the stored code is \<open>c\<close> and the status message is the registered text of
  \<open>c\<close>, or \<^verbatim>\<open>unknown status\<close> when \<open>c\<close> has none; for every \<open>c\<close> below 100 or
  above 599 it throws an \<^verbatim>\<open>InvalidArgumentException\<close>. So the call throws exactly when
  the code is outside the range.
\<close>

theorem setStatus_range:
  "(100 \<le> c \<and> c \<le> 599 \<longrightarrow>
      setStatus P r c None =
        Inr (r\<lparr>statusCode := Some c,
               statusMessage := Some (case STATUS_TEXTS P c of Some t \<Rightarrow> t
                                      | None \<Rightarrow> ''unknown status'')\<rparr>)) \<and>
   (c < 100 \<or> c > 599 \<longrightarrow>
      (\<exists>m s. setStatus P r c None = Inl (InvalidArgumentException m, s))) \<and>
   ((\<exists>e s. setStatus P r c None = Inl (e, s)) \<longleftrightarrow> (c < 100 \<or> c > 599))"
  by (auto simp: setStatus_def Let_def isInvalid_statusCode)

theorem setStatus_range_witness:
  "setStatus example_platform blank 404 None =
     Inr (blank\<lparr>statusCode := Some 404, statusMessage := Some ''Not Found''\<rparr>) \<and>
   setStatus example_platform blank 599 None =
     Inr (blank\<lparr>statusCode := Some 599, statusMessage := Some ''unknown status''\<rparr>) \<and>
   (\<exists>m s. setStatus example_platform blank 99 None = Inl (InvalidArgumentException m, s)) \<and>
   (\<exists>e s. setStatus example_platform blank 600 None = Inl (e, s))"
  using setStatus_range [of 404 example_platform blank]
        setStatus_range [of 599 example_platform blank]
        setStatus_range [of 99 example_platform blank]
        setStatus_range [of 600 example_platform blank]
  by (simp add: example_platform_def)

text \<open>
  Claim C10. When \<^verbatim>\<open>setStatus(code)\<close> throws, the object it leaves behind already
  holds the invalid code: the failing call has overwritten \<^verbatim>\<open>_statusCode\<close> and changed
  nothing else.
\<close>

theorem setStatus_invalid_overwrites:
  "c < 100 \<or> c > 599 \<Longrightarrow>
     \<exists>m. setStatus P r c t = Inl (InvalidArgumentException m, r\<lparr>statusCode := Some c\<rparr>) \<and>
         statusCode (r\<lparr>statusCode := Some c\<rparr>) = Some c \<and>
         isInvalid (r\<lparr>statusCode := Some c\<rparr>)"
  by (auto simp: setStatus_def Let_def isInvalid_statusCode)

theorem setStatus_invalid_overwrites_witness:
  "\<exists>m. setStatus example_platform example_response 700 None =
         Inl (InvalidArgumentException m, example_response\<lparr>statusCode := Some 700\<rparr>) \<and>
       statusCode (example_response\<lparr>statusCode := Some 700\<rparr>) = Some 700 \<and>
       isInvalid (example_response\<lparr>statusCode := Some 700\<rparr>)"
  using setStatus_invalid_overwrites [of 700 example_platform example_response None]
  by simp

section \<open>Construction\<close>

text \<open>
  Claim C1 says that constructing a Response with the default arguments succeeds and
  leaves an empty cookie jar. The code does not: with the default \<^verbatim>\<open>headers = {}\<close>,
  \<^verbatim>\<open>setHeaders\<close> calls \<^verbatim>\<open>reduce\<close> with no initial value on the empty array of entries,
  which throws a \<^verbatim>\<open>TypeError\<close>. The constructor stops after \<^verbatim>\<open>setStatus\<close>: the status
  and its message are set, the header bag, the content and the cookie jar are not. This
  holds for every content and every platform.
\<close>

theorem Response_new_default_headers_throws:
  "Response_new P c None None =
     Inl (TypeError, blank\<lparr>statusCode := Some 200,
            statusMessage := Some (case STATUS_TEXTS P 200 of Some t \<Rightarrow> t
                                   | None \<Rightarrow> ''unknown status'')\<rparr>) \<and>
   Response_new P c (Some 200) (Some (PlainObject [])) = Response_new P c None None"
  by (simp add: Response_new_def setStatus_def isInvalid_def setHeaders_def reduce_entries_def
        Let_def)

text \<open>
  More than that: no call of the constructor returns, whatever the content, the status
  and the headers. The header bag is never created (the first declaration of
  \<^verbatim>\<open>setHeaders\<close>, which would create it, is overridden by the second), so every
  \<^verbatim>\<open>setHeader\<close> throws; and with a single entry \<^verbatim>\<open>reduce\<close> returns that entry, on
  which the constructor then calls \<^verbatim>\<open>setContent\<close>.
\<close>

theorem Response_new_never_returns:
  "\<exists>e s. Response_new P c st hs = Inl (e, s)"
proof (cases "setStatus P blank (case st of None \<Rightarrow> 200 | Some s \<Rightarrow> s) None")
  case (Inl x)
  then show ?thesis by (cases x) (simp add: Response_new_def Let_def)
next
  case (Inr r1)
  then have h: "headers r1 = None"
    using setStatus_headers [of P blank _ None r1] by (simp add: blank_def)
  have red: "(\<exists>e s. reduce_entries P r1 es = Inl (e, s)) \<or>
             (\<exists>e. reduce_entries P r1 es = Inr (Entry e, r1))" for es
  proof (cases es)
    case Nil
    then show ?thesis by (simp add: reduce_entries_def)
  next
    case outer: (Cons a as)
    show ?thesis
    proof (cases as)
      case Nil
      with outer show ?thesis by (simp add: reduce_entries_def)
    next
      case (Cons b bs)
      obtain e s where "setHeader P r1 (fst b) (snd b) = Inl (e, s)"
        using headers_None_setHeader [OF h] by blast
      with Cons outer show ?thesis by (simp add: reduce_entries_def)
    qed
  qed
  have "(\<exists>e s. setHeaders P r1 (case hs of None \<Rightarrow> PlainObject [] | Some h \<Rightarrow> h) = Inl (e, s))
      \<or> (\<exists>e. setHeaders P r1 (case hs of None \<Rightarrow> PlainObject [] | Some h \<Rightarrow> h) = Inr (Entry e, r1))"
    using red by (auto simp: setHeaders_def split: headers_arg.splits)
  with Inr show ?thesis
    by (auto simp: Response_new_def Let_def)
qed

section \<open>Content\<close>

text \<open>
  Claim C6 says that \<^verbatim>\<open>setContent(null)\<close> yields empty content. The code does not:
  \<^verbatim>\<open>typeof null\<close> is \<^verbatim>\<open>'object'\<close>, so \<^verbatim>\<open>null\<close> is serialized like any object, and the
  content is the four characters \<^verbatim>\<open>null\<close> (or the call throws, when no application
  resolver is set). Only \<^verbatim>\<open>undefined\<close> reaches \<^verbatim>\<open>value ?? ''\<close> and gives the empty
  string.
\<close>

theorem setContent_null_is_serialized:
  "setContent P r JNull =
     (case appResolver r of
        None \<Rightarrow> Inl (InvalidArgumentCause (LogicException ''Must set an Application resolver.''), r)
      | Some a \<Rightarrow> Inr (r\<lparr>content := CStr ''null'', originalContent := JNull\<rparr>)) \<and>
   setContent P r JUndefined = Inr (r\<lparr>content := CStr [], originalContent := JUndefined\<rparr>)"
  by (simp add: setContent_JNull) (simp add: setContent_def shouldBeJson_def)

section \<open>Content-Type\<close>

text \<open>
  Claim C7 says that setting Content-Type to a value with no charset fragment stores the
  value with a charset appended (\<^verbatim>\<open>text/plain\<close> as \<^verbatim>\<open>text/plain; charset=utf-8\<close>), that a
  value containing \<^verbatim>\<open>; charset=\<close> is stored unmodified, and that an array value throws.
  The array value does throw: the exception of the class when every element converts to a
  string, and the \<^verbatim>\<open>TypeError\<close> of the conversion, which comes first, otherwise. A string
  is not stored: the class never creates the header
  bag (the declaration of \<^verbatim>\<open>setHeaders\<close> that would create it is overridden by the
  second one), so after computing the value, and the charset field, \<^verbatim>\<open>setHeader\<close> calls
  \<^verbatim>\<open>set\<close> on \<^verbatim>\<open>undefined\<close> and throws a \<^verbatim>\<open>TypeError\<close>. This is what happens on every
  object without a header bag, and in the constructor's own call of \<^verbatim>\<open>setHeader\<close> for a
  headers argument \<^verbatim>\<open>{'X-Powered-By': 'Stone', 'Content-Type': 'text/plain'}\<close>.
\<close>

theorem setHeader_content_type_not_stored:
  "setHeader P (r\<lparr>headers := None\<rparr>) ''Content-Type'' (JStr ''text/plain'') =
     Inl (TypeError, r\<lparr>headers := None, charset := charsets_lookup P ''text/plain''\<rparr>) \<and>
   setHeader P (r\<lparr>headers := None\<rparr>) ''Content-Type'' (JStr ''text/html; charset=latin1'') =
     Inl (TypeError, r\<lparr>headers := None\<rparr>) \<and>
   Response_new P c None
       (Some (PlainObject [(''X-Powered-By'', JStr ''Stone''), (''Content-Type'', JStr ''text/plain'')])) =
     Inl (TypeError, blank\<lparr>statusCode := Some 200,
            statusMessage := Some (case STATUS_TEXTS P 200 of Some t \<Rightarrow> t
                                   | None \<Rightarrow> ''unknown status''),
            charset := charsets_lookup P ''text/plain''\<rparr>) \<and>
   setHeader P r ''Content-Type'' (JArr xs) =
     (if list_all stringable xs
      then Inl (InvalidArgumentException ''Content-Type cannot be set to an Array'', r)
      else Inl (TypeError, r))"
proof -
  have t: "trim (split_shift ''text/plain'') = ''text/plain''"
    by (simp add: trim_def split_shift_def is_space_def)
  have y: "charsetRegExp_test ''text/html; charset=latin1''"
    by (simp add: charset_tail_def is_space_def)
  have a: "setHeader P (s\<lparr>headers := None\<rparr>) ''Content-Type'' (JStr ''text/plain'') =
     Inl (TypeError, s\<lparr>headers := None, charset := charsets_lookup P ''text/plain''\<rparr>)" for s
    by (simp add: setHeader_def lower_content_type t headers_set_def Let_def)
  have b: "setHeader P (r\<lparr>headers := None\<rparr>) ''Content-Type'' (JStr ''text/html; charset=latin1'') =
     Inl (TypeError, r\<lparr>headers := None\<rparr>)"
    using y by (simp add: setHeader_def lower_content_type headers_set_def
                  del: charsetRegExp_test.simps)
  have n: "blank\<lparr>statusCode := Some 200, statusMessage := m\<rparr> =
           (blank\<lparr>statusCode := Some 200, statusMessage := m\<rparr>)\<lparr>headers := None\<rparr>" for m
    by (simp add: blank_def)
  have c: "Response_new P c None
       (Some (PlainObject [(''X-Powered-By'', JStr ''Stone''), (''Content-Type'', JStr ''text/plain'')])) =
     Inl (TypeError, blank\<lparr>statusCode := Some 200,
            statusMessage := Some (case STATUS_TEXTS P 200 of Some t \<Rightarrow> t
                                   | None \<Rightarrow> ''unknown status''),
            charset := charsets_lookup P ''text/plain''\<rparr>)"
    apply (simp add: Response_new_def setStatus_def isInvalid_def setHeaders_def
        reduce_entries_def Let_def)
    apply (subst n)
    apply (simp add: a)
    apply (simp add: blank_def)
    done
  have d: "setHeader P r ''Content-Type'' (JArr xs) =
     (if list_all stringable xs
      then Inl (InvalidArgumentException ''Content-Type cannot be set to an Array'', r)
      else Inl (TypeError, r))"
    by (simp add: setHeader_def lower_content_type)
  from a [of r] b c d show ?thesis by simp
qed

text \<open>
  On a response that does have a header bag (one that a subclass or a caller has given
  it), \<^verbatim>\<open>setHeader\<close> stores what \<^verbatim>\<open>Headers.set\<close> makes of the computed value: under any
  spelling of the name Content-Type, a string with no charset fragment gets the charset
  that \<^verbatim>\<open>mime.charsets.lookup\<close> gives for its media type appended in lower case (nothing
  when the lookup gives none), a string that matches \<^verbatim>\<open>/;\s*charset\s*=/\<close> is taken as it
  is, and the result is stored with the white space at its ends stripped, provided it is
  a header value.
\<close>

theorem setHeader_content_type_with_bag:
  assumes "toLowerCase key = ''content-type''" and "is_header_name key"
    and "headers r = Some h"
    and "v = s @ (if charsetRegExp_test s then []
                  else case charsets_lookup P (trim (split_shift s)) of
                         Some c \<Rightarrow> if c = [] then [] else ''; charset='' @ toLowerCase c
                       | None \<Rightarrow> [])"
    and "is_header_value (normalize_value v)"
  shows "\<exists>r'. setHeader P r key (JStr s) = Inr r' \<and>
              getHeader r' ''Content-Type'' = Inr (Some (normalize_value v))"
proof -
  have k2: "toLowerCase key = toLowerCase ''Content-Type''"
    using assms(1) by (simp add: lower_content_type)
  let ?cs = "charsets_lookup P (trim (split_shift s))"
  have hh: "headers (r\<lparr>charset := ?cs\<rparr>) = Some h" using assms(3) by simp
  show ?thesis
  proof (cases "charsetRegExp_test s")
    case True
    then have "setHeader P r key (JStr s) = headers_set r key (HString s)"
      using assms(1) by (simp add: setHeader_def)
    moreover have "v = s" using True assms(4) by simp
    ultimately show ?thesis
      using getHeader_headers_set [OF assms(3) k2 assms(2) header_names(1), of s] assms(5)
      by simp
  next
    case False
    then have "setHeader P r key (JStr s) = headers_set (r\<lparr>charset := ?cs\<rparr>) key (HString v)"
      using assms(1) assms(4) by (simp add: setHeader_def Let_def split: option.splits)
    then show ?thesis
      using getHeader_headers_set [OF hh k2 assms(2) header_names(1), of v] assms(5)
      by simp
  qed
qed

theorem setHeader_content_type_with_bag_witness:
  "(\<exists>r'. setHeader example_platform example_response ''CONTENT-type'' (JStr ''text/plain'') = Inr r' \<and>
         getHeader r' ''Content-Type'' = Inr (Some ''text/plain; charset=utf-8'')) \<and>
   (\<exists>r'. setHeader example_platform example_response ''CONTENT-type''
           (JStr '' text/html; charset=latin1 '') = Inr r' \<and>
         getHeader r' ''Content-Type'' = Inr (Some ''text/html; charset=latin1''))"
proof -
  have k: "toLowerCase ''CONTENT-type'' = ''content-type''"
    by (simp add: toLowerCase_def lower_char_def)
  have kn: "is_header_name ''CONTENT-type''"
    by (simp add: is_header_name_def token_char_def)
  have h: "headers example_response = Some []"
    by (simp add: example_response_def blank_def)
  have l: "charsets_lookup example_platform (trim (split_shift ''text/plain'')) = Some ''UTF-8''"
    by (simp add: example_platform_def example_charsets_lookup_def trim_def split_shift_def
          is_space_def)
  have n: "\<not> charsetRegExp_test ''text/plain''" by simp
  have y: "charsetRegExp_test '' text/html; charset=latin1 ''"
    by (simp add: charset_tail_def is_space_def)
  have v1: "normalize_value ''text/plain; charset=utf-8'' = ''text/plain; charset=utf-8''"
    by (simp add: normalize_value_def http_whitespace_def)
  have v2: "normalize_value '' text/html; charset=latin1 '' = ''text/html; charset=latin1''"
    by (simp add: normalize_value_def http_whitespace_def)
  have o1: "is_header_value ''text/plain; charset=utf-8''"
    by (simp add: is_header_value_def)
  have o2: "is_header_value ''text/html; charset=latin1''"
    by (simp add: is_header_value_def)
  show ?thesis
    using setHeader_content_type_with_bag [OF k kn h, of "''text/plain; charset=utf-8''"
            "''text/plain''" example_platform]
          setHeader_content_type_with_bag [OF k kn h, of "'' text/html; charset=latin1 ''"
            "'' text/html; charset=latin1 ''" example_platform]
          l n y v1 v2 o1 o2
    by (simp add: toLowerCase_def lower_char_def header_names)
qed

section \<open>\<^verbatim>\<open>prepare\<close>\<close>

text \<open>
  Claim C2 says that after \<^verbatim>\<open>prepare\<close> a response with an informational, 204 or 304
  status has its content dropped (an empty body) and no Content-Type, Content-Length
  or Transfer-Encoding header, and that with status 205 the content is dropped,
  Content-Length is \<^verbatim>\<open>0\<close> and Transfer-Encoding is absent. The headers are as the claim
  says, but the content is not dropped: \<^verbatim>\<open>prepare\<close> drops it with \<^verbatim>\<open>setContent(null)\<close>,
  which stores the string \<^verbatim>\<open>null\<close> (claim C6), and which throws when the response has
  no application resolver. Evaluated on a 204 and a 205 response that carry the content
  \<^verbatim>\<open>hello\<close> and the three headers, and on the 204 response with no application
  resolver.
\<close>

theorem prepare_keeps_null_content:
  "(\<exists>r1. prepare example_platform (example_with_body 204) example_request = Inr r1 \<and>
         statusCode r1 = Some 204 \<and> content r1 = CStr ''null'' \<and> headers r1 = Some []) \<and>
   (\<exists>r1. prepare example_platform (example_with_body 205) example_request = Inr r1 \<and>
         statusCode r1 = Some 205 \<and> content r1 = CStr ''null'' \<and>
         headers r1 = Some [(''content-type'', ''text/plain; charset=utf-8''),
                            (''content-length'', ''0'')]) \<and>
   (\<exists>s. prepare example_platform ((example_with_body 204)\<lparr>appResolver := None\<rparr>) example_request =
         Inl (InvalidArgumentCause (LogicException ''Must set an Application resolver.''), s))"
proof -
  have "\<exists>s. prepare example_platform ((example_with_body 204)\<lparr>appResolver := None\<rparr>) example_request =
         Inl (InvalidArgumentCause (LogicException ''Must set an Application resolver.''), s)"
    by (simp add: prepare_def prepare_type_def inferContentType_def getHeader_def Headers_get_def
        prepare_status_def isInformational_def isEmpty_def isResetContent_def chain_def
        setContent_JNull example_defs header_names Let_def toLowerCase_def lower_char_def)
  then show ?thesis
    by (simp add: prepare_example_204 prepare_example_205)
qed

text \<open>
  What \<^verbatim>\<open>prepare\<close> does guarantee, on every response and request for which it returns:
  with an informational, 204 or 304 status the three framing headers are absent, with
  status 205 Content-Length is \<^verbatim>\<open>0\<close> and Transfer-Encoding is absent, and in both
  cases the content is the string \<^verbatim>\<open>null\<close>.
\<close>

theorem prepare_no_body_statuses:
  assumes "prepare P r req = Inr r'"
  shows "(isInformational r' \<or> isEmpty r' \<longrightarrow>
            content r' = CStr ''null'' \<and>
            getHeader r' ''Content-Type'' = Inr None \<and>
            getHeader r' ''Content-Length'' = Inr None \<and>
            getHeader r' ''Transfer-Encoding'' = Inr None) \<and>
         (isResetContent r' \<longrightarrow>
            content r' = CStr ''null'' \<and>
            getHeader r' ''Content-Length'' = Inr (Some ''0'') \<and>
            getHeader r' ''Transfer-Encoding'' = Inr None)"
proof -
  from assms obtain r2 r3 where s: "prepare_status P r2 req = Inr r3"
    and fin: "r' = r3 \<or> r' = setProtocolVersion r3 ''1.1'' \<or>
              secureCookies P r3 True = Inr r' \<or>
              secureCookies P (setProtocolVersion r3 ''1.1'') True = Inr r'"
    by (auto simp: prepare_def chain_def Let_def split: sum.splits if_splits)
  from fin have fr: "statusCode r' = statusCode r3 \<and> content r' = content r3 \<and>
     (\<forall>h. headers r3 = Some h \<longrightarrow>
        (\<exists>h'. headers r' = Some h' \<and>
           (\<forall>k. toLowerCase k \<noteq> toLowerCase ''Set-Cookie'' \<longrightarrow> Headers_get h' k = Headers_get h k)))"
    by (auto simp: setProtocolVersion_def get_other_set dest!: secureCookies_frame)
  have st: "statusCode r' = statusCode r2"
    using fr prepare_status_result(1) [OF s] by simp
  have cls: "isInformational r' = isInformational r2" "isEmpty r' = isEmpty r2"
            "isResetContent r' = isResetContent r2"
    using st by (simp_all add: isInformational_def isEmpty_def isResetContent_def)
  have nk: "toLowerCase ''Content-Type'' \<noteq> toLowerCase ''Set-Cookie''"
           "toLowerCase ''Content-Length'' \<noteq> toLowerCase ''Set-Cookie''"
           "toLowerCase ''Transfer-Encoding'' \<noteq> toLowerCase ''Set-Cookie''"
    by (simp_all add: toLowerCase_def lower_char_def)
  show ?thesis
    using fr nk prepare_status_result(2) [OF s] prepare_status_result(3) [OF s]
    unfolding cls getHeader_def
    by (auto simp: header_names split: option.splits)
qed

theorem prepare_no_body_statuses_witness:
  "\<exists>r'. prepare example_platform (example_with_body 204) example_request = Inr r' \<and>
        isEmpty r' \<and> content r' = CStr ''null'' \<and>
        getHeader r' ''Content-Type'' = Inr None \<and>
        getHeader r' ''Content-Length'' = Inr None \<and>
        getHeader r' ''Transfer-Encoding'' = Inr None"
  using prepare_no_body_statuses [OF prepare_example_204]
  by (simp add: prepare_example_204 isEmpty_def)

section \<open>Cache\<close>

text \<open>
  Claim C4 says that \<^verbatim>\<open>getAge()\<close> is now minus the Date header when there is no Age
  header, and that with \<^verbatim>\<open>max-age=60\<close> and an Age header of 10 \<^verbatim>\<open>getTtl()\<close> is 50.
  The test in \<^verbatim>\<open>getAge\<close> is inverted: the Age header is parsed when the bag does
  \<^emph>\<open>not\<close> have it, which gives \<^verbatim>\<open>NaN\<close>; when the bag has it, the age is computed from
  the Date header, whose value is a string or \<^verbatim>\<open>null\<close> and has no \<^verbatim>\<open>getTime\<close>, so the
  call throws. With \<^verbatim>\<open>max-age=60\<close> and \<^verbatim>\<open>Age: 10\<close>, \<^verbatim>\<open>getMaxAge()\<close> is 60 and
  \<^verbatim>\<open>getTtl()\<close> throws a \<^verbatim>\<open>TypeError\<close>; with \<^verbatim>\<open>max-age=60\<close> and no Age header,
  \<^verbatim>\<open>getTtl()\<close> is \<^verbatim>\<open>NaN\<close> and \<^verbatim>\<open>isFresh()\<close> is false.
\<close>

theorem getAge_never_reads_Age:
  "getAge P (r\<lparr>headers := Some h\<rparr>) = (if Headers_has h ''Age'' then Inl TypeError else Inr NaN) \<and>
   (\<exists>r1 r2. setMaxAge example_platform example_response (JNumber (Num 60)) = Inr r1 \<and>
            setHeader example_platform r1 ''Age'' (JStr ''10'') = Inr r2 \<and>
            getMaxAge example_platform r2 = Inr (Some (Num 60)) \<and>
            getAge example_platform r2 = Inl TypeError \<and>
            getTtl example_platform r2 = Inl TypeError) \<and>
   (\<exists>r1. setMaxAge example_platform example_response (JNumber (Num 60)) = Inr r1 \<and>
         getAge example_platform r1 = Inr NaN \<and>
         getTtl example_platform r1 = Inr (Some NaN) \<and>
         isFresh example_platform r1 = Inr False)"
proof -
  have a: "getAge P (r\<lparr>headers := Some h\<rparr>) = (if Headers_has h ''Age'' then Inl TypeError else Inr NaN)"
    by (simp add: getAge_def header_getTime_def Headers_has_def Headers_get_def header_value_def
          parseInt_null)
  have m: "setMaxAge example_platform example_response (JNumber (Num 60)) =
      Inr (example_response\<lparr>headerCacheControl := Some [(''max-age'', JNumber (Num 60))],
             headers := Some [(''cache-control'', '', max-age=60'')]\<rparr>)"
    by (simp add: setMaxAge_def addHeaderCacheControlDirective_def cacheControl_setHeader_def
          getHeaderCacheControlHeader_def setHeader_def example_response_def blank_def Let_def
          header_defs number_defs)
  have m2: "setHeader example_platform
        (example_response\<lparr>headerCacheControl := Some [(''max-age'', JNumber (Num 60))],
             headers := Some [(''cache-control'', '', max-age=60'')]\<rparr>) ''Age'' (JStr ''10'') =
      Inr (example_response\<lparr>headerCacheControl := Some [(''max-age'', JNumber (Num 60))],
             headers := Some [(''cache-control'', '', max-age=60''), (''age'', ''10'')]\<rparr>)"
    by (simp add: setHeader_def header_defs)
  have p60: "parseInt example_platform (JNumber (Num 60)) = Num 60"
    by (simp add: parseInt_def parseInt_string_def is_space_def is_digit_def digit_value_def
          digits_value_def number_defs Let_def)
  have b: "\<exists>r1 r2. setMaxAge example_platform example_response (JNumber (Num 60)) = Inr r1 \<and>
            setHeader example_platform r1 ''Age'' (JStr ''10'') = Inr r2 \<and>
            getMaxAge example_platform r2 = Inr (Some (Num 60)) \<and>
            getAge example_platform r2 = Inl TypeError \<and>
            getTtl example_platform r2 = Inl TypeError"
    by (simp add: m m2 p60 getMaxAge_def getAge_def getTtl_def header_getTime_def
          Headers_has_def toLowerCase_def lower_char_def)
  have c: "\<exists>r1. setMaxAge example_platform example_response (JNumber (Num 60)) = Inr r1 \<and>
         getAge example_platform r1 = Inr NaN \<and>
         getTtl example_platform r1 = Inr (Some NaN) \<and>
         isFresh example_platform r1 = Inr False"
    by (simp add: m p60 parseInt_null
          getMaxAge_def getAge_def getTtl_def isFresh_def positive_def header_getTime_def
          Headers_has_def Headers_get_def header_value_def toLowerCase_def lower_char_def)
  from a b c show ?thesis by blast
qed

text \<open>
  Claim C5 says that a 200 response carrying an ETag and neither \<^verbatim>\<open>no-store\<close> nor
  \<^verbatim>\<open>private\<close> is cacheable. In the code the list \<^verbatim>\<open>[200, 203, 300, 301, 302, 404, 410]\<close>
  (the statuses that are cacheable by default) is tested without a negation, so
  \<^verbatim>\<open>isCacheable()\<close> is false for every response with status 200, whatever its headers and
  directives; the same response with status 201 is reported cacheable.
\<close>

theorem isCacheable_rejects_200:
  "isCacheable P (r\<lparr>statusCode := Some 200\<rparr>) = Inr False \<and>
   (\<exists>r1. setEtag example_platform example_response (JStr ''abc'') False = Inr r1 \<and>
         statusCode r1 = Some 200 \<and>
         hasHeader r1 ''ETag'' = Inr True \<and>
         hasHeaderCacheControlDirective r1 ''no-store'' = Inr False \<and>
         getHeaderCacheControlDirective r1 ''private'' = Inr JUndefined \<and>
         isCacheable example_platform r1 = Inr False \<and>
         isCacheable example_platform (r1\<lparr>statusCode := Some 201\<rparr>) = Inr True)"
  by (simp add: isCacheable_def setEtag_def setHeader_def header_defs
        example_response_def blank_def Let_def
        hasHeader_def Headers_has_def hasHeaderCacheControlDirective_def
        getHeaderCacheControlDirective_def isValidateable_def)

text \<open>
  Claim C8 says that after a directive mutation the Cache-Control header is the
  comma-joined list of the directives, a boolean directive as its bare name and a valued
  one as \<^verbatim>\<open>name=value\<close>. In the code the \<^verbatim>\<open>reduce\<close> of \<^verbatim>\<open>getHeaderCacheControlHeader\<close>
  starts from the empty string and puts a comma and a space before every directive, and
  its branch for a boolean directive leaves the name out: for the single directive
  \<^verbatim>\<open>public\<close> it returns a comma and a space, of which \<^verbatim>\<open>Headers.set\<close> stores the comma,
  and after \<^verbatim>\<open>setMaxAge(60)\<close> the header is \<^verbatim>\<open>, max-age=60\<close>. On a response with no
  header bag the mutation throws. The helpers \<^verbatim>\<open>setPublic\<close>, \<^verbatim>\<open>setPrivate\<close>,
  \<^verbatim>\<open>setImmutable(false)\<close> and \<^verbatim>\<open>setSharedMaxAge\<close> set no header at all: they call the
  method \<^verbatim>\<open>removeHeaderCacheControlDirective\<close>, which the class does not have, and throw
  a \<^verbatim>\<open>TypeError\<close> on every response.
\<close>

theorem cacheControl_boolean_directive_has_no_name:
  "getHeaderCacheControlHeader P (r\<lparr>headerCacheControl := Some [(k, JBool True)]\<rparr>) = Inr '', '' \<and>
   (\<exists>r1. addHeaderCacheControlDirective example_platform example_response ''public'' JUndefined = Inr r1 \<and>
         headerCacheControl r1 = Some [(''public'', JBool True)] \<and>
         getHeader r1 ''Cache-Control'' = Inr (Some '','')) \<and>
   (\<exists>r1. setMaxAge example_platform example_response (JNumber (Num 60)) = Inr r1 \<and>
         headerCacheControl r1 = Some [(''max-age'', JNumber (Num 60))] \<and>
         getHeader r1 ''Cache-Control'' = Inr (Some '', max-age=60'')) \<and>
   addHeaderCacheControlDirective P (r\<lparr>headers := None, headerCacheControl := None\<rparr>) ''public'' JUndefined =
     Inl (TypeError, r\<lparr>headers := None, headerCacheControl := Some [(''public'', JBool True)]\<rparr>) \<and>
   setPublic P r = Inl (TypeError, r) \<and>
   setPrivate P r = Inl (TypeError, r) \<and>
   setImmutable P r False = Inl (TypeError, r) \<and>
   setSharedMaxAge P r v = Inl (TypeError, r)"
proof -
  have a: "getHeaderCacheControlHeader P (r\<lparr>headerCacheControl := Some [(k, JBool True)]\<rparr>) = Inr '', ''"
    by (simp add: getHeaderCacheControlHeader_def)
  have b: "\<exists>r1. addHeaderCacheControlDirective example_platform example_response ''public'' JUndefined = Inr r1 \<and>
         headerCacheControl r1 = Some [(''public'', JBool True)] \<and>
         getHeader r1 ''Cache-Control'' = Inr (Some '','')"
    by (simp add: addHeaderCacheControlDirective_def cacheControl_setHeader_def
          getHeaderCacheControlHeader_def setHeader_def example_response_def blank_def Let_def
          header_defs getHeader_def Headers_get_def)
  have c: "\<exists>r1. setMaxAge example_platform example_response (JNumber (Num 60)) = Inr r1 \<and>
         headerCacheControl r1 = Some [(''max-age'', JNumber (Num 60))] \<and>
         getHeader r1 ''Cache-Control'' = Inr (Some '', max-age=60'')"
    by (simp add: setMaxAge_def addHeaderCacheControlDirective_def cacheControl_setHeader_def
          getHeaderCacheControlHeader_def setHeader_def example_response_def blank_def Let_def
          header_defs number_defs getHeader_def Headers_get_def)
  have d: "addHeaderCacheControlDirective P (r\<lparr>headers := None, headerCacheControl := None\<rparr>) ''public'' JUndefined =
     Inl (TypeError, r\<lparr>headers := None, headerCacheControl := Some [(''public'', JBool True)]\<rparr>)"
    by (simp add: addHeaderCacheControlDirective_def cacheControl_setHeader_def
          getHeaderCacheControlHeader_def setHeader_def headers_set_def Let_def
          toLowerCase_def lower_char_def)
  have e: "setImmutable P r False = Inl (TypeError, r)"
    by (simp add: setImmutable_def removeHeaderCacheControlDirective_def)
  from a b c d e show ?thesis
    by (simp add: setPublic_throws setPrivate_throws setSharedMaxAge_throws)
qed

text \<open>
  What the mutations that can return do guarantee when they return: the Cache-Control
  header is what \<^verbatim>\<open>Headers.set\<close> stores of the concatenation, over the directive map in
  order, of a comma and a space followed by nothing for a directive whose value is
  \<^verbatim>\<open>true\<close> and by \<^verbatim>\<open>name=value\<close> for any other.
\<close>

theorem cacheControl_header_after_mutation:
  assumes "mutation \<in> {addHeaderCacheControlDirective P r k v, removeCacheControlDirective P r k,
             setImmutable P r True, setMaxAge P r v,
             setStaleWhileRevalidate P r v, setStaleIfError P r v}"
    and "mutation = Inr r'"
  shows "\<exists>m. headerCacheControl r' = Some m \<and>
           getHeader r' ''Cache-Control'' =
             Inr (Some (normalize_value
               (concat (map (\<lambda>kv. '', '' @ (if snd kv = JBool True then []
                                          else fst kv @ ''='' @ to_String P (snd kv))) m))))"
proof -
  have add: "addHeaderCacheControlDirective P s k' v' = Inr r' \<Longrightarrow> ?thesis" for s k' v'
    by (auto simp: addHeaderCacheControlDirective_def Let_def dest: cacheControl_setHeader_result)
  have rem: "removeCacheControlDirective P s k' = Inr r' \<Longrightarrow> ?thesis" for s k'
    by (auto simp: removeCacheControlDirective_def split: option.splits
             dest: cacheControl_setHeader_result)
  from assms(1) consider
      "mutation = addHeaderCacheControlDirective P r k v"
    | "mutation = removeCacheControlDirective P r k"
    | "mutation = setImmutable P r True" | "mutation = setMaxAge P r v"
    | "mutation = setStaleWhileRevalidate P r v"
    | "mutation = setStaleIfError P r v"
    by blast
  then show ?thesis
  proof cases
    case 1 with assms(2) show ?thesis by (auto dest: add)
  next
    case 2 with assms(2) show ?thesis by (auto dest: rem)
  next
    case 3 with assms(2) show ?thesis by (auto simp: setImmutable_def dest: add)
  next
    case 4 with assms(2) show ?thesis by (auto simp: setMaxAge_def dest: add)
  next
    case 5 with assms(2) show ?thesis by (auto simp: setStaleWhileRevalidate_def dest: add)
  next
    case 6 with assms(2) show ?thesis by (auto simp: setStaleIfError_def dest: add)
  qed
qed

theorem cacheControl_header_after_mutation_witness:
  "\<exists>r'. setStaleIfError example_platform
          (example_response\<lparr>headerCacheControl := Some [(''immutable'', JBool True)]\<rparr>)
          (JNumber (Num 60)) = Inr r' \<and>
        headerCacheControl r' = Some [(''immutable'', JBool True), (''stale-if-error'', JNumber (Num 60))] \<and>
        getHeader r' ''Cache-Control'' = Inr (Some '', , stale-if-error=60'')"
proof -
  have e: "setStaleIfError example_platform
          (example_response\<lparr>headerCacheControl := Some [(''immutable'', JBool True)]\<rparr>)
          (JNumber (Num 60)) =
     Inr (example_response\<lparr>headerCacheControl :=
              Some [(''immutable'', JBool True), (''stale-if-error'', JNumber (Num 60))],
            headers := Some [(''cache-control'', '', , stale-if-error=60'')]\<rparr>)"
    by (simp add: setStaleIfError_def addHeaderCacheControlDirective_def cacheControl_setHeader_def
          getHeaderCacheControlHeader_def setHeader_def example_response_def blank_def Let_def
          header_defs number_defs)
  show ?thesis
    using cacheControl_header_after_mutation [of _ example_platform
        "example_response\<lparr>headerCacheControl := Some [(''immutable'', JBool True)]\<rparr>"
        "''k''" "JNumber (Num 60)", OF _ e]
    by (simp add: e number_defs normalize_value_def http_whitespace_def)
qed

text \<open>
  Claim C9 says that \<^verbatim>\<open>setCache(options)\<close> throws exactly when \<^verbatim>\<open>options\<close> has an
  unsupported key. The code computes the difference the other way round, the supported
  keys that \<^verbatim>\<open>options\<close> does not have: \<^verbatim>\<open>setCache({})\<close> and \<^verbatim>\<open>setCache({max_age: 60})\<close>
  throw an \<^verbatim>\<open>InvalidArgumentException\<close>, and an options object with all fourteen
  supported keys (each \<^verbatim>\<open>undefined\<close>) and the unsupported key \<^verbatim>\<open>bogus\<close> is accepted and
  changes nothing.
\<close>

theorem setCache_rejects_missing_keys:
  "(\<exists>m. setCache P r [] = Inl (InvalidArgumentException m, r)) \<and>
   (\<exists>m. setCache P r [(''max_age'', JNumber (Num 60))] = Inl (InvalidArgumentException m, r)) \<and>
   setCache P r (map (\<lambda>kv. (fst kv, JUndefined)) HTTP_RESPONSE_CACHE_CONTROL_DIRECTIVES
                  @ [(''bogus'', JNumber (Num 1))]) = Inr r"
  by (simp add: setCache_def setCache_diff_def HTTP_RESPONSE_CACHE_CONTROL_DIRECTIVES_def
        when_option_def option_of_def chain_def)

text \<open>
  The exact condition under which \<^verbatim>\<open>setCache\<close> throws an \<^verbatim>\<open>InvalidArgumentException\<close>:
  some supported key is missing from \<^verbatim>\<open>options\<close>. (Every other failure of
  \<^verbatim>\<open>setCache\<close> is a \<^verbatim>\<open>TypeError\<close>.)
\<close>

theorem setCache_throws_iff_key_missing:
  "(\<exists>m s. setCache P r options = Inl (InvalidArgumentException m, s)) \<longleftrightarrow>
   (\<exists>k \<in> set (map fst HTTP_RESPONSE_CACHE_CONTROL_DIRECTIVES). k \<notin> set (map fst options))"
proof -
  have d: "(setCache_diff options \<noteq> []) =
        (\<exists>k \<in> set (map fst HTTP_RESPONSE_CACHE_CONTROL_DIRECTIVES). k \<notin> set (map fst options))"
    unfolding setCache_diff_def by (simp only: filter_empty_conv) blast
  show ?thesis
  proof (cases "setCache_diff options = []")
    case True
    then have "\<not> (\<exists>m s. setCache P r options = Inl (InvalidArgumentException m, s))"
      using setCache_steps_error [of P r options] by fastforce
    with True d show ?thesis by simp
  next
    case False
    then have "\<exists>m s. setCache P r options = Inl (InvalidArgumentException m, s)"
      by (simp add: setCache_def)
    with False d show ?thesis by simp
  qed
qed


end
